(* ===== verification/Status_Prelude.thy ===== *)
theory Status_Prelude
  imports Main
begin

text \<open>
  Shared vocabulary of the development: the Python and JSON values the status plugin
  (\<^verbatim>\<open>src/mast/datapower/status/status.py\<close>) manipulates, the string and path helpers of
  the Python standard library it calls (\<^verbatim>\<open>str.split\<close>, \<^verbatim>\<open>str.join\<close>,
  \<^verbatim>\<open>os.path.join\<close>), and the generic lemmas about them that the component theories
  use through the collections declared here.
\<close>

named_theorems world_frame
  \<open>fields of the outside world that an operation leaves unchanged\<close>
named_theorems pystr_simps
  \<open>evaluation rules for the Python string helpers\<close>

subsection \<open>JSON values\<close>

text \<open>
  The handler answers with \<^verbatim>\<open>flask.jsonify(resp)\<close>, where \<^verbatim>\<open>resp\<close> is a
  dictionary from strings to lists of strings (host names, metric texts, which may be
  \<^verbatim>\<open>None\<close>) and one timestamp string. Dictionary keys are sorted by \<^verbatim>\<open>jsonify\<close>, so
  the response is a map from keys to values; the insertion order does not matter.
\<close>

datatype json = JStr string | JNull | JArr "json list"

type_synonym response = "string \<rightharpoonup> json"

subsection \<open>\<^verbatim>\<open>str.split\<close> and \<^verbatim>\<open>str.join\<close> on a one-character separator\<close>

text \<open>
  \<^verbatim>\<open>s.split(c)\<close> cuts \<open>s\<close> at every occurrence of \<open>c\<close>; it never returns an empty
  list (\<^verbatim>\<open>"".split(".") == [""]\<close>), so indexing the result with \<^verbatim>\<open>[0]\<close> never
  raises.
\<close>

fun py_split :: "char \<Rightarrow> string \<Rightarrow> string list" where
  "py_split c [] = [[]]"
| "py_split c (x # xs) =
     (if x = c then [] # py_split c xs
      else (case py_split c xs of
              [] \<Rightarrow> [[x]]
            | ys # yss \<Rightarrow> (x # ys) # yss))"

fun py_join :: "char \<Rightarrow> string list \<Rightarrow> string" where
  "py_join c [] = []"
| "py_join c [s] = s"
| "py_join c (s # ss) = s @ c # py_join c ss"

lemma py_split_nonempty [simp]: "py_split c s \<noteq> []"
  by (induction s) (auto split: list.splits)

text \<open>The split result read as head and tail, which is how the loop body indexes it.\<close>

lemma py_split_Cons:
  "py_split c (x # xs) =
     (if x = c then [] # py_split c xs
      else (x # hd (py_split c xs)) # tl (py_split c xs))"
  using py_split_nonempty [of c xs] by (cases "py_split c xs") auto

declare py_split.simps(2) [simp del]
declare py_split_Cons [simp, pystr_simps]

lemma hd_py_split [simp]: "hd (py_split c s) = takeWhile (\<lambda>x. x \<noteq> c) s"
  by (induction s) auto

lemma py_split_no_sep: "t \<in> set (py_split c s) \<Longrightarrow> c \<notin> set t"
proof (induction s arbitrary: t)
  case Nil
  then show ?case by simp
next
  case (Cons x xs)
  have "takeWhile (\<lambda>y. y \<noteq> c) xs \<in> set (py_split c xs)"
    using list.set_sel(1) [OF py_split_nonempty [of c xs]] by simp
  with Cons show ?case
    using list.set_sel(2) [OF py_split_nonempty [of c xs]]
    by (cases "x = c") auto
qed

lemma py_split_append_sep [pystr_simps]:
  "c \<notin> set a \<Longrightarrow> py_split c (a @ c # b) = a # py_split c b"
  by (induction a) auto

lemma py_split_no_occurrence [pystr_simps]: "c \<notin> set a \<Longrightarrow> py_split c a = [a]"
  by (induction a) auto

lemma py_join_Cons_head [simp]: "py_join c ((x # s) # ss) = x # py_join c (s # ss)"
  by (cases ss) auto

text \<open>\<^verbatim>\<open>c.join(s.split(c)) == s\<close>: splitting loses nothing.\<close>

lemma py_join_split: "py_join c (py_split c s) = s"
proof (induction s)
  case Nil
  then show ?case by simp
next
  case (Cons x xs)
  show ?case
  proof (cases "x = c")
    case True
    with Cons.IH show ?thesis
      by (cases "py_split c xs") auto
  next
    case False
    have "py_join c (hd (py_split c xs) # tl (py_split c xs)) = xs"
      using Cons.IH hd_Cons_tl [OF py_split_nonempty [of c xs]] by (simp del: hd_py_split)
    with False show ?thesis by (simp del: hd_py_split)
  qed
qed

text \<open>\<^verbatim>\<open>c.join(parts).split(c) == parts\<close> when no part contains \<open>c\<close>.\<close>

lemma py_split_join:
  "xs \<noteq> [] \<Longrightarrow> list_all (\<lambda>x. c \<notin> set x) xs \<Longrightarrow> py_split c (py_join c xs) = xs"
proof (induction c xs rule: py_join.induct)
  case (2 c s)
  then show ?case by (simp add: py_split_no_occurrence)
next
  case (3 c s v vs)
  then show ?case by (simp add: py_split_append_sep)
qed simp

lemma py_split_eq_iff:
  "py_split c s = xs \<longleftrightarrow> xs \<noteq> [] \<and> list_all (\<lambda>x. c \<notin> set x) xs \<and> s = py_join c xs"
proof
  assume "py_split c s = xs"
  then show "xs \<noteq> [] \<and> list_all (\<lambda>x. c \<notin> set x) xs \<and> s = py_join c xs"
    using py_join_split [of c s] py_split_no_sep [of _ c s] by (auto simp: list_all_iff)
next
  assume "xs \<noteq> [] \<and> list_all (\<lambda>x. c \<notin> set x) xs \<and> s = py_join c xs"
  then show "py_split c s = xs" using py_split_join by blast
qed
lemma py_split_single:
  "py_split c s = [a] \<longleftrightarrow> c \<notin> set a \<and> s = a"
  by (simp add: py_split_eq_iff)

lemma py_split_pair:
  "py_split c s = [a, b] \<longleftrightarrow> c \<notin> set a \<and> c \<notin> set b \<and> s = a @ c # b"
  by (auto simp: py_split_eq_iff)

subsection \<open>Mapping a fallible function over a list\<close>

text \<open>
  \<open>traverse_sum f xs\<close> applies \<open>f\<close> to the elements of \<open>xs\<close> from the left and stops
  at the first error, as a Python loop stops at the first exception.
\<close>

fun traverse_sum :: "('a \<Rightarrow> 'e + 'b) \<Rightarrow> 'a list \<Rightarrow> 'e + 'b list" where
  "traverse_sum f [] = Inr []"
| "traverse_sum f (x # xs) =
     (case f x of
        Inl e \<Rightarrow> Inl e
      | Inr y \<Rightarrow> (case traverse_sum f xs of Inl e \<Rightarrow> Inl e | Inr ys \<Rightarrow> Inr (y # ys)))"

lemma traverse_sum_Inr_length: "traverse_sum f xs = Inr ys \<Longrightarrow> length ys = length xs"
  by (induction xs arbitrary: ys) (auto split: sum.splits)

lemma traverse_sum_Inl: "traverse_sum f xs = Inl e \<Longrightarrow> \<exists>x \<in> set xs. f x = Inl e"
  by (induction xs) (auto split: sum.splits)

subsection \<open>\<^verbatim>\<open>os.path.join\<close> (POSIX)\<close>

text \<open>
  \<^verbatim>\<open>posixpath.join(a, *p)\<close>: an absolute component restarts the path; otherwise a
  separator is inserted unless the path so far is empty or already ends with one.
\<close>

definition path_join2 :: "string \<Rightarrow> string \<Rightarrow> string" where
  "path_join2 a b =
     (if take 1 b = ''/'' then b
      else if a = [] \<or> last a = CHR ''/'' then a @ b
      else a @ ''/'' @ b)"

fun path_join :: "string \<Rightarrow> string list \<Rightarrow> string" where
  "path_join a [] = a"
| "path_join a (b # bs) = path_join (path_join2 a b) bs"

lemma path_join2_relative [pystr_simps]:
  "a \<noteq> [] \<Longrightarrow> last a \<noteq> CHR ''/'' \<Longrightarrow> b \<noteq> [] \<Longrightarrow> hd b \<noteq> CHR ''/'' \<Longrightarrow>
   path_join2 a b = a @ ''/'' @ b"
  by (cases b) (auto simp: path_join2_def)

lemma path_join2_last [pystr_simps]:
  "b \<noteq> [] \<Longrightarrow> last (path_join2 a b) = last b"
  by (auto simp: path_join2_def)

lemma path_join2_nonempty [pystr_simps]: "b \<noteq> [] \<Longrightarrow> path_join2 a b \<noteq> []"
  by (auto simp: path_join2_def)

subsection \<open>\<^verbatim>\<open>os.path.dirname\<close> (POSIX)\<close>

text \<open>
  \<^verbatim>\<open>posixpath.dirname(p)\<close>: everything up to and including the last slash, with
  the trailing slashes removed unless that prefix consists of slashes only.
\<close>

definition py_dirname :: "string \<Rightarrow> string" where
  "py_dirname p =
     (let head = rev (dropWhile (\<lambda>c. c \<noteq> CHR ''/'') (rev p))
      in if head \<noteq> [] \<and> list_ex (\<lambda>c. c \<noteq> CHR ''/'') head
         then rev (dropWhile (\<lambda>c. c = CHR ''/'') (rev head)) else head)"

lemma dropWhile_to_sep:
  "c \<notin> set f \<Longrightarrow> dropWhile (\<lambda>x. x \<noteq> c) (rev f @ c # r) = c # r"
  by (subst dropWhile_append2) auto

lemma dropWhile_rev_last:
  "d \<noteq> [] \<Longrightarrow> last d \<noteq> c \<Longrightarrow> dropWhile (\<lambda>x. x = c) (rev d) = rev d"
  by (cases d rule: rev_cases) auto

lemma py_dirname_file [pystr_simps]:
  assumes "d \<noteq> []" and "last d \<noteq> CHR ''/''" and "CHR ''/'' \<notin> set f"
  shows "py_dirname (d @ CHR ''/'' # f) = d"
proof -
  have "last d \<in> set d" using assms(1) by simp
  with assms(2) have ex: "list_ex (\<lambda>c. c \<noteq> CHR ''/'') (d @ ''/'')"
    unfolding list_ex_iff by auto
  have "rev (d @ CHR ''/'' # f) = rev f @ CHR ''/'' # rev d" by simp
  then have "rev (dropWhile (\<lambda>c. c \<noteq> CHR ''/'') (rev (d @ CHR ''/'' # f))) = d @ ''/''"
    using dropWhile_to_sep [OF assms(3), of "rev d"] by simp
  moreover have "rev (dropWhile (\<lambda>c. c = CHR ''/'') (rev (d @ ''/''))) = d"
    using dropWhile_rev_last [OF assms(1,2)] by simp
  ultimately show ?thesis using ex unfolding py_dirname_def Let_def by simp
qed


subsection \<open>Round trip of \<^verbatim>\<open>str.split\<close> and \<^verbatim>\<open>str.join\<close>\<close>

text \<open>
  Splitting at a separator and joining with it are inverse: joining the parts of
  \<open>s.split(c)\<close> gives \<open>s\<close> back, and splitting the join of a non-empty list of
  separator-free parts gives the parts back.
\<close>

lemma py_split_roundtrip:
  "py_join c (py_split c s) = s \<and>
   (xs \<noteq> [] \<and> list_all (\<lambda>x. c \<notin> set x) xs \<longrightarrow> py_split c (py_join c xs) = xs)"
  using py_join_split py_split_join by blast

end
