(* ===== verification/Provider_Map.thy ===== *)
theory Provider_Map
  imports Status_Prelude
begin

text \<open>
  The static table \<^verbatim>\<open>PROVIDER_MAP\<close> of \<^verbatim>\<open>status.py\<close> (lines 9--18), which maps a
  metric name \<^verbatim>\<open>Category.Field\<close> to the location of its value in the status
  document of the appliance, and the category computation of the collection loop
  (\<^verbatim>\<open>provider.split(".")[0]\<close>, line 86). The table is built from the library constant
  \<^verbatim>\<open>datapower.STATUS_XPATH\<close>, whose value lives outside this repository; it is a
  parameter of the model, so every lemma holds whatever that prefix is.
\<close>

text \<open>The dictionary literal, as its list of entries, and the dictionary it builds.\<close>

definition PROVIDER_TABLE :: "string \<Rightarrow> (string \<times> string) list" where
  "PROVIDER_TABLE STATUS_XPATH = [
     (''CPUUsage.tenSeconds'', STATUS_XPATH @ ''/CPUUsage/tenSeconds''),
     (''TCPSummary.established'', STATUS_XPATH @ ''/TCPSummary/established''),
     (''MemoryStatus.Usage'', STATUS_XPATH @ ''/MemoryStatus/Usage''),
     (''FilesystemStatus.FreeTemporary'', STATUS_XPATH @ ''FilesystemStatus/FreeTemporary''),
     (''FilesystemStatus.FreeEncrypted'', STATUS_XPATH @ ''FilesystemStatus/FreeEncrypted''),
     (''FilesystemStatus.FreeInternal'', STATUS_XPATH @ ''FilesystemStatus/FreeInternal''),
     (''SystemUsage.Load'', STATUS_XPATH @ ''SystemUsage/Load''),
     (''SystemUsage.WorkList'', STATUS_XPATH @ ''SystemUsage/WorkList'')]"

definition PROVIDER_MAP :: "string \<Rightarrow> string \<rightharpoonup> string" where
  "PROVIDER_MAP STATUS_XPATH = map_of (PROVIDER_TABLE STATUS_XPATH)"

text \<open>The status category a metric is fetched from: \<^verbatim>\<open>provider.split(".")[0]\<close>.\<close>

definition provider_category :: "string \<Rightarrow> string" where
  "provider_category provider = hd (py_split CHR ''.'' provider)"

subsection \<open>Lemmas\<close>

lemma provider_category_takeWhile [simp]:
  "provider_category p = takeWhile (\<lambda>x. x \<noteq> CHR ''.'') p"
  by (simp add: provider_category_def)

lemma provider_category_dotted:
  "CHR ''.'' \<notin> set cat \<Longrightarrow> provider_category (cat @ CHR ''.'' # fld) = cat"
proof -
  assume "CHR ''.'' \<notin> set cat"
  then have "takeWhile (\<lambda>x. x \<noteq> CHR ''.'') (cat @ CHR ''.'' # fld) = cat @ []"
    by (subst takeWhile_append2) auto
  then show ?thesis by simp
qed

lemma PROVIDER_MAP_SomeD:
  "PROVIDER_MAP sx p = Some path \<Longrightarrow> (p, path) \<in> set (PROVIDER_TABLE sx)"
  unfolding PROVIDER_MAP_def by (rule map_of_SomeD)

lemma not_provider_keys:
  "''appliances'' \<notin> dom (PROVIDER_MAP sx)" "''time'' \<notin> dom (PROVIDER_MAP sx)"
  by (simp_all add: PROVIDER_MAP_def PROVIDER_TABLE_def)

subsection \<open>Properties of the table\<close>

text \<open>
  C11. Every entry of the table is consistent with the category the loop queries: the
  metric name is \<open>Category.Field\<close>, and its location is \<^verbatim>\<open>STATUS_XPATH\<close> followed by
  \<open>Category/Field\<close>, joined by a slash for three entries and with no separator for the
  five \<^verbatim>\<open>FilesystemStatus\<close> and \<^verbatim>\<open>SystemUsage\<close> entries.
\<close>

theorem provider_path_shape:
  assumes "PROVIDER_MAP sx p = Some path"
  shows "p = provider_category p @ ''.'' @ drop (Suc (length (provider_category p))) p \<and>
         (path = sx @ ''/'' @ provider_category p @ ''/'' @ drop (Suc (length (provider_category p))) p \<or>
          path = sx @ provider_category p @ ''/'' @ drop (Suc (length (provider_category p))) p)"
  using PROVIDER_MAP_SomeD [OF assms] by (auto simp: PROVIDER_TABLE_def)

theorem provider_path_shape_witness:
  "PROVIDER_MAP ''/status'' ''SystemUsage.Load'' = Some ''/statusSystemUsage/Load'' \<and>
   ''SystemUsage.Load'' = ''SystemUsage'' @ ''.'' @ ''Load''"
  using provider_path_shape [of "''/status''" "''SystemUsage.Load''" "''/statusSystemUsage/Load''"]
  by (simp add: PROVIDER_MAP_def PROVIDER_TABLE_def)

end
