(* ===== verification/Appliance.thy ===== *)
theory Appliance
  imports Status_Prelude
begin

text \<open>
  The interface between the plugin and the libraries it calls, which are outside this
  repository: the appliance handles of \<^verbatim>\<open>mast.datapower.datapower\<close>
  (\<^verbatim>\<open>Environment\<close>, \<^verbatim>\<open>DataPower.get_status\<close>), \<^verbatim>\<open>time.sleep\<close>,
  \<^verbatim>\<open>mast.timestamp.Timestamp\<close> and the XOR credential codec of \<^verbatim>\<open>mast.xor\<close>.
  They are modelled from the spec and from how \<^verbatim>\<open>status.py\<close> uses them:
  \<^item> the outside world is a record: a clock (advanced by \<^verbatim>\<open>sleep\<close>, read by
    \<^verbatim>\<open>Timestamp\<close>), the log of every status query sent so far, and the behaviour of
    the appliances, a function of the query's position in that log, the appliance and
    the category, so that an intermittent failure is an answer that depends on when the
    query is made;
  \<^item> the pure library functions (\<^verbatim>\<open>xordecode\<close>, \<^verbatim>\<open>xorencode\<close>,
    \<^verbatim>\<open>Timestamp.short\<close>, the constant \<^verbatim>\<open>STATUS_XPATH\<close>) are the fields of a record
    \<open>mastlib\<close> that every operation takes as a parameter, so the lemmas hold for any
    implementation of them.
\<close>

record appliance =
  hostname :: string
  credential :: string
  check_hostname :: bool

text \<open>
  A status document is queried with \<^verbatim>\<open>xml.find(path)\<close>: \<open>None\<close> when no element
  matches, otherwise the element, of which the handler reads \<^verbatim>\<open>.text\<close> (itself
  \<^verbatim>\<open>None\<close> for an empty element).
\<close>

type_synonym status_doc = "string \<rightharpoonup> string option"

datatype qresult =
    QStatus status_doc  \<comment> \<open>\<^verbatim>\<open>get_status\<close> returned a status response\<close>
  | QAuthFailure  \<comment> \<open>it raised \<^verbatim>\<open>datapower.AuthenticationFailure\<close>\<close>
  | QError string  \<comment> \<open>it raised any other exception\<close>

type_synonym device = "nat \<Rightarrow> appliance \<Rightarrow> string \<Rightarrow> qresult"

record world =
  clock :: nat
  queries :: "(string \<times> string) list"
  device :: device

record mastlib =
  STATUS_XPATH :: string
  xordecode :: "string \<Rightarrow> string \<Rightarrow> string"
  xorencode :: "string \<Rightarrow> string"
  Timestamp_short :: "nat \<Rightarrow> string"

text \<open>\<^verbatim>\<open>appliance.get_status(category)\<close>: one query, logged, answered by the device.\<close>

definition get_status :: "appliance \<Rightarrow> string \<Rightarrow> world \<Rightarrow> qresult \<times> world" where
  "get_status a category w =
     (device w (length (queries w)) a category,
      w\<lparr>queries := queries w @ [(hostname a, category)]\<rparr>)"

definition sleep :: "nat \<Rightarrow> world \<Rightarrow> world" where
  "sleep secs w = w\<lparr>clock := clock w + secs\<rparr>"

text \<open>
  \<^verbatim>\<open>datapower.Environment(hostnames, credentials, check_hostname)\<close>: one appliance
  handle per host name, paired with the credential at the same position.
\<close>

definition Environment :: "string list \<Rightarrow> string list \<Rightarrow> bool \<Rightarrow> appliance list" where
  "Environment hostnames credentials chk =
     map2 (\<lambda>h c. \<lparr>hostname = h, credential = c, check_hostname = chk\<rparr>) hostnames credentials"

subsection \<open>Frame lemmas\<close>

lemma get_status_frame [world_frame]:
  "get_status a c w = (r, w') \<Longrightarrow> device w' = device w \<and> clock w' = clock w"
  by (auto simp: get_status_def)

lemma get_status_queries [simp]:
  "queries (snd (get_status a c w)) = queries w @ [(hostname a, c)]"
  by (simp add: get_status_def)

lemma get_status_answer [simp]:
  "fst (get_status a c w) = device w (length (queries w)) a c"
  by (simp add: get_status_def)

lemma sleep_frame [world_frame, simp]:
  "device (sleep n w) = device w" "queries (sleep n w) = queries w"
  "clock (sleep n w) = clock w + n"
  by (simp_all add: sleep_def)

lemma Environment_length [simp]:
  "length (Environment hs cs chk) = min (length hs) (length cs)"
  by (simp add: Environment_def)

lemma Environment_hostnames:
  "map hostname (Environment hs cs chk) = hs" if "length cs = length hs"
proof -
  have "hostname \<circ> (\<lambda>(h, c). \<lparr>hostname = h, credential = c, check_hostname = chk\<rparr>) = fst"
    by auto
  then show ?thesis
    using that by (simp add: Environment_def)
qed

end
