(* ===== verification/Collector.thy ===== *)
theory Collector
  imports Provider_Map Appliance "HOL-Library.Sublist"
begin

text \<open>
  One run of the body of \<^verbatim>\<open>WebPlugin.status\<close> (\<^verbatim>\<open>status.py\<close>, lines 64--112),
  up to the point where it either answers, raises, or catches
  \<^verbatim>\<open>AuthenticationFailure\<close> and restarts itself (the restart is in theory
  \<open>Retry\<close>). The request is a record of the form lists and cookies the handler reads
  from \<^verbatim>\<open>flask.request\<close>; every exception the body can raise is a constructor of
  \<open>error\<close>, and an attempt returns \<open>error + response\<close> together with the world after the
  queries it sent.
\<close>

record request =
  form_appliances :: "string list"  \<comment> \<open>\<^verbatim>\<open>form.getlist('appliances[]')\<close>\<close>
  form_credentials :: "string list"  \<comment> \<open>\<^verbatim>\<open>form.getlist('credentials[]')\<close>\<close>
  form_providers :: "string list"  \<comment> \<open>\<^verbatim>\<open>form.getlist('providers[]')\<close>\<close>
  cookies :: "string \<rightharpoonup> string"  \<comment> \<open>\<^verbatim>\<open>request.cookies\<close>\<close>

datatype error =
    NotFound404  \<comment> \<open>\<^verbatim>\<open>flask.abort(404)\<close>\<close>
  | CookieKeyError string  \<comment> \<open>\<^verbatim>\<open>request.cookies[k]\<close> for a missing cookie \<open>k\<close>\<close>
  | AuthenticationFailure  \<comment> \<open>\<^verbatim>\<open>datapower.AuthenticationFailure\<close>\<close>
  | DeviceError string  \<comment> \<open>any other exception of \<^verbatim>\<open>get_status\<close>, re-raised\<close>
  | KeyError string  \<comment> \<open>\<^verbatim>\<open>PROVIDER_MAP[provider]\<close> for an unknown metric\<close>
  | AttributeError  \<comment> \<open>\<^verbatim>\<open>None.text\<close>: the path matched no element\<close>
  | RecursionLimit  \<comment> \<open>\<^verbatim>\<open>RuntimeError\<close>: maximum recursion depth exceeded\<close>

definition cookie_name :: string where
  "cookie_name = ''9x4h/mmek/j.ahba.ckhafn''"

text \<open>
  Lines 70--72: each submitted credential is decoded with the key
  \<^verbatim>\<open>xorencode(cookies[cookie_name])\<close>; the cookie is indexed once per credential, so
  it is only needed when at least one credential was sent.
\<close>

fun decode_credentials ::
  "mastlib \<Rightarrow> (string \<rightharpoonup> string) \<Rightarrow> string list \<Rightarrow> error + string list" where
  "decode_credentials L ck [] = Inr []"
| "decode_credentials L ck (c # cs) =
     (case ck cookie_name of
        None \<Rightarrow> Inl (CookieKeyError cookie_name)
      | Some k \<Rightarrow>
          (case decode_credentials L ck cs of
             Inl e \<Rightarrow> Inl e
           | Inr ds \<Rightarrow> Inr (xordecode L c (xorencode L k) # ds)))"

text \<open>The text of the matched element, as \<^verbatim>\<open>jsonify\<close> writes it.\<close>

definition metric_json :: "string option \<Rightarrow> json" where
  "metric_json text = (case text of None \<Rightarrow> JNull | Some s \<Rightarrow> JStr s)"

text \<open>
  Lines 88--111, the inner loop over the appliances for one provider: query the
  category, re-raise any error but \<^verbatim>\<open>AuthenticationFailure\<close> (which leaves the loop
  to be retried), then look the metric up in \<^verbatim>\<open>PROVIDER_MAP\<close> and read the matched
  element's text. The list \<open>acc\<close> is \<^verbatim>\<open>resp[provider]\<close>, which only this loop
  appends to.
\<close>

fun collect_provider ::
  "mastlib \<Rightarrow> string \<Rightarrow> string \<Rightarrow> appliance list \<Rightarrow> json list \<Rightarrow> world \<Rightarrow>
   (error + json list) \<times> world" where
  "collect_provider L provider category [] acc w = (Inr acc, w)"
| "collect_provider L provider category (a # as) acc w =
     (let (r, w') = get_status a category w in
      case r of
        QAuthFailure \<Rightarrow> (Inl AuthenticationFailure, w')
      | QError m \<Rightarrow> (Inl (DeviceError m), w')
      | QStatus doc \<Rightarrow>
          (case PROVIDER_MAP (STATUS_XPATH L) provider of
             None \<Rightarrow> (Inl (KeyError provider), w')
           | Some path \<Rightarrow>
               (case doc path of
                  None \<Rightarrow> (Inl AttributeError, w')
                | Some text \<Rightarrow>
                    collect_provider L provider category as (acc @ [metric_json text]) w')))"

text \<open>
  Lines 85--111, the outer loop over the requested providers: \<^verbatim>\<open>resp[provider] = []\<close>
  (a provider requested twice starts again from an empty list), then the inner loop.
\<close>

fun collect_providers ::
  "mastlib \<Rightarrow> string list \<Rightarrow> appliance list \<Rightarrow> response \<Rightarrow> world \<Rightarrow>
   (error + response) \<times> world" where
  "collect_providers L [] env resp w = (Inr resp, w)"
| "collect_providers L (provider # providers) env resp w =
     (let category = provider_category provider in
      case collect_provider L provider category env [] w of
        (Inl e, w') \<Rightarrow> (Inl e, w')
      | (Inr vs, w') \<Rightarrow> collect_providers L providers env (resp(provider \<mapsto> JArr vs)) w')"

text \<open>
  Lines 67--84 and 112: read the clock, decode the credentials, answer 404 when no
  appliance was named, build the environment and the initial response, run the loops.
\<close>

definition initial_response :: "string list \<Rightarrow> string \<Rightarrow> response" where
  "initial_response appliances time =
     [''appliances'' \<mapsto> JArr (map JStr appliances), ''time'' \<mapsto> JStr time]"

definition status_attempt :: "mastlib \<Rightarrow> request \<Rightarrow> world \<Rightarrow> (error + response) \<times> world" where
  "status_attempt L req w =
     (let t = clock w;
          appliances = form_appliances req
      in case decode_credentials L (cookies req) (form_credentials req) of
           Inl e \<Rightarrow> (Inl e, w)
         | Inr credentials \<Rightarrow>
             if appliances = [] then (Inl NotFound404, w)
             else
               (let env = Environment appliances credentials False;
                    resp = initial_response appliances (Timestamp_short L t)
                in collect_providers L (form_providers req) env resp w))"

subsection \<open>Lemmas: one step of the loops\<close>

abbreviation logged :: "world \<Rightarrow> appliance \<Rightarrow> string \<Rightarrow> world" where
  "logged w a c \<equiv> w\<lparr>queries := queries w @ [(hostname a, c)]\<rparr>"

lemma collect_provider_Cons_inv:
  assumes "collect_provider L p c (a # as) acc w = (r, w')"
  obtains (stop) "w' = logged w a c" "isl r"
      "r = Inl AuthenticationFailure \<Longrightarrow> device w (length (queries w)) a c = QAuthFailure"
    | (more) acc' where "collect_provider L p c as acc' (logged w a c) = (r, w')"
  using assms
  by (cases "device w (length (queries w)) a c")
     (auto simp: get_status_def split: option.splits)

subsection \<open>Lemmas: what the loops send and return\<close>

lemma collect_provider_frame:
  "collect_provider L p c as acc w = (r, w') \<Longrightarrow> device w' = device w \<and> clock w' = clock w"
proof (induction as arbitrary: acc w)
  case (Cons a as)
  from Cons.prems show ?case
    by (cases rule: collect_provider_Cons_inv) (auto dest: Cons.IH)
qed simp

lemma collect_provider_queries:
  "collect_provider L p c as acc w = (r, w') \<Longrightarrow>
   prefix (queries w') (queries w @ map (\<lambda>a. (hostname a, c)) as) \<and>
   (\<not> isl r \<longrightarrow> queries w' = queries w @ map (\<lambda>a. (hostname a, c)) as) \<and>
   (isl r \<longrightarrow> length (queries w) < length (queries w'))"
proof (induction as arbitrary: acc w)
  case (Cons a as)
  from Cons.prems show ?case
  proof (cases rule: collect_provider_Cons_inv)
    case stop
    then show ?thesis by simp
  next
    case (more acc')
    from Cons.IH [OF this] show ?thesis by auto
  qed
qed auto

lemma collect_provider_auth:
  "collect_provider L p c as acc w = (Inl AuthenticationFailure, w') \<Longrightarrow>
   \<exists>a. device w (length (queries w') - 1) a c = QAuthFailure"
proof (induction as arbitrary: acc w)
  case (Cons a as)
  from Cons.prems show ?case
  proof (cases rule: collect_provider_Cons_inv)
    case stop
    then show ?thesis by auto
  next
    case (more acc')
    from Cons.IH [OF this] show ?thesis by simp
  qed
qed simp

lemma collect_provider_Inr:
  "collect_provider L p c as acc w = (Inr vs, w') \<Longrightarrow> \<exists>vs'. vs = acc @ vs' \<and> length vs' = length as"
proof (induction as arbitrary: acc w)
  case (Cons a as)
  then show ?case
    by (fastforce simp: get_status_def split: qresult.splits option.splits)
qed simp

lemma collect_provider_known:
  "collect_provider L p c as acc w = (Inr vs, w') \<Longrightarrow> as \<noteq> [] \<Longrightarrow>
   p \<in> dom (PROVIDER_MAP (STATUS_XPATH L))"
  by (cases as) (auto simp: get_status_def split: qresult.splits option.splits)

text \<open>
  The queries the loops send when nothing fails: for every requested provider in turn,
  one query of its category to every appliance, in appliance order.
\<close>

definition query_plan :: "string list \<Rightarrow> appliance list \<Rightarrow> (string \<times> string) list" where
  "query_plan providers env =
     concat (map (\<lambda>p. map (\<lambda>a. (hostname a, provider_category p)) env) providers)"

lemma query_plan_simps [simp]:
  "query_plan [] env = []"
  "query_plan (p # ps) env = map (\<lambda>a. (hostname a, provider_category p)) env @ query_plan ps env"
  by (simp_all add: query_plan_def)

lemma collect_providers_Cons_inv:
  assumes "collect_providers L (p # ps) env resp w = (r, w')"
  obtains (stop) e where "collect_provider L p (provider_category p) env [] w = (Inl e, w')" "r = Inl e"
    | (more) vs w1 where "collect_provider L p (provider_category p) env [] w = (Inr vs, w1)"
        "collect_providers L ps env (resp(p \<mapsto> JArr vs)) w1 = (r, w')"
  using assms
  by (cases "collect_provider L p (provider_category p) env [] w" rule: prod.exhaust)
     (auto split: sum.splits)

lemma collect_providers_frame:
  "collect_providers L ps env resp w = (r, w') \<Longrightarrow> device w' = device w \<and> clock w' = clock w"
proof (induction ps arbitrary: resp w)
  case (Cons p ps)
  from Cons.prems show ?case
    by (cases rule: collect_providers_Cons_inv) (auto dest!: Cons.IH collect_provider_frame)
qed simp

lemma collect_providers_queries:
  "collect_providers L ps env resp w = (r, w') \<Longrightarrow>
   prefix (queries w') (queries w @ query_plan ps env) \<and>
   (\<not> isl r \<longrightarrow> queries w' = queries w @ query_plan ps env) \<and>
   (isl r \<longrightarrow> length (queries w) < length (queries w'))"
proof (induction ps arbitrary: resp w)
  case (Cons p ps)
  from Cons.prems show ?case
  proof (cases rule: collect_providers_Cons_inv)
    case (stop e)
    from collect_provider_queries [OF stop(1)] stop(2) show ?thesis
      by (simp add: prefix_def) (metis append.assoc)
  next
    case (more vs w1)
    from collect_provider_queries [OF more(1)] Cons.IH [OF more(2)] show ?thesis
      by auto
  qed
qed auto

lemma collect_providers_auth:
  "collect_providers L ps env resp w = (Inl AuthenticationFailure, w') \<Longrightarrow>
   \<exists>a c. device w (length (queries w') - 1) a c = QAuthFailure"
proof (induction ps arbitrary: resp w)
  case (Cons p ps)
  from Cons.prems show ?case
  proof (cases rule: collect_providers_Cons_inv)
    case (stop e)
    then show ?thesis by (blast dest: collect_provider_auth)
  next
    case (more vs w1)
    from Cons.IH [OF more(2)] collect_provider_frame [OF more(1)] show ?thesis by simp
  qed
qed simp

lemma collect_providers_shape:
  "collect_providers L ps env resp w = (Inr resp', w') \<Longrightarrow>
   (\<forall>p \<in> set ps. \<exists>vs. resp' p = Some (JArr vs) \<and> length vs = length env) \<and>
   (\<forall>k. k \<notin> set ps \<longrightarrow> resp' k = resp k)"
proof (induction ps arbitrary: resp w)
  case (Cons p ps)
  from Cons.prems show ?case
  proof (cases rule: collect_providers_Cons_inv)
    case (stop e)
    then show ?thesis by simp
  next
    case (more vs w1)
    from collect_provider_Inr [OF more(1)] have "length vs = length env" by simp
    with Cons.IH [OF more(2)] show ?thesis by auto
  qed
qed simp

lemma collect_providers_known:
  "collect_providers L ps env resp w = (Inr resp', w') \<Longrightarrow> env \<noteq> [] \<Longrightarrow>
   set ps \<subseteq> dom (PROVIDER_MAP (STATUS_XPATH L))"
proof (induction ps arbitrary: resp w)
  case (Cons p ps)
  from Cons.prems(1) show ?case
  proof (cases rule: collect_providers_Cons_inv)
    case (stop e)
    then show ?thesis by simp
  next
    case (more vs w1)
    with Cons.IH Cons.prems(2) collect_provider_known show ?thesis by fastforce
  qed
qed simp

lemma decode_credentials_Inl:
  "decode_credentials L ck cs = Inl e \<Longrightarrow> e = CookieKeyError cookie_name"
  by (induction cs) (auto split: option.splits sum.splits)

lemma decode_credentials_Inr:
  "decode_credentials L ck cs = Inr ds \<Longrightarrow> length ds = length cs"
  by (induction cs arbitrary: ds) (auto split: option.splits sum.splits)

lemma decode_credentials_cookie:
  "ck cookie_name = Some k \<Longrightarrow>
   decode_credentials L ck cs = Inr (map (\<lambda>c. xordecode L c (xorencode L k)) cs)"
  by (induction cs) auto

lemma decode_credentials_ok:
  "cs = [] \<or> ck cookie_name \<noteq> None \<Longrightarrow> \<exists>ds. decode_credentials L ck cs = Inr ds"
  by (cases cs) (auto simp: decode_credentials_cookie)

lemma collect_provider_log:
  "collect_provider L p c as acc w = (r, w') \<Longrightarrow> prefix (queries w) (queries w')"
proof (induction as arbitrary: acc w)
  case (Cons a as)
  from Cons.prems show ?case
  proof (cases rule: collect_provider_Cons_inv)
    case stop
    then show ?thesis by simp
  next
    case (more acc')
    from Cons.IH [OF this] show ?thesis by (auto simp: prefix_def)
  qed
qed simp

lemma collect_providers_log:
  "collect_providers L ps env resp w = (r, w') \<Longrightarrow> prefix (queries w) (queries w')"
proof (induction ps arbitrary: resp w)
  case (Cons p ps)
  from Cons.prems show ?case
  proof (cases rule: collect_providers_Cons_inv)
    case (stop e)
    then show ?thesis by (blast dest: collect_provider_log)
  next
    case (more vs w1)
    from collect_provider_log [OF more(1)] Cons.IH [OF more(2)] show ?thesis
      by (rule prefix_order.trans)
  qed
qed simp

lemma status_attempt_cases:
  "status_attempt L req w =
     (case decode_credentials L (cookies req) (form_credentials req) of
        Inl e \<Rightarrow> (Inl e, w)
      | Inr creds \<Rightarrow>
          if form_appliances req = [] then (Inl NotFound404, w)
          else collect_providers L (form_providers req)
                 (Environment (form_appliances req) creds False)
                 (initial_response (form_appliances req) (Timestamp_short L (clock w))) w)"
  unfolding status_attempt_def Let_def by (rule refl)

lemma status_attempt_frame [world_frame]:
  "status_attempt L req w = (r, w') \<Longrightarrow> device w' = device w \<and> clock w' = clock w"
  by (auto simp: status_attempt_cases split: sum.splits if_splits dest: collect_providers_frame)

lemma status_attempt_log:
  "status_attempt L req w = (r, w') \<Longrightarrow> prefix (queries w) (queries w')"
  by (auto simp: status_attempt_cases split: sum.splits if_splits dest: collect_providers_log)

lemma status_attempt_auth:
  "status_attempt L req w = (Inl AuthenticationFailure, w') \<Longrightarrow>
   length (queries w) < length (queries w') \<and>
   (\<exists>a c. device w (length (queries w') - 1) a c = QAuthFailure)"
proof -
  assume att: "status_attempt L req w = (Inl AuthenticationFailure, w')"
  then obtain env resp where
    run: "collect_providers L (form_providers req) env resp w = (Inl AuthenticationFailure, w')"
    by (auto simp: status_attempt_cases split: sum.splits if_splits dest: decode_credentials_Inl)
  from collect_providers_queries [OF run] collect_providers_auth [OF run] show ?thesis
    by simp
qed

lemma status_attempt_first_auth_query:
  assumes first: "\<forall>a c. device w (length (queries w)) a c = QAuthFailure"
    and apps: "form_appliances req \<noteq> []" and provs: "form_providers req \<noteq> []"
    and cookie: "cookies req cookie_name \<noteq> None"
    and creds: "length (form_credentials req) = length (form_appliances req)"
  shows "status_attempt L req w =
           (Inl AuthenticationFailure,
            w\<lparr>queries := queries w @
                 [(hd (form_appliances req), provider_category (hd (form_providers req)))]\<rparr>)"
proof -
  from cookie obtain k where k: "cookies req cookie_name = Some k" by blast
  let ?creds = "map (\<lambda>c. xordecode L c (xorencode L k)) (form_credentials req)"
  have "length (Environment (form_appliances req) ?creds False) \<noteq> 0"
    using apps creds by simp
  then obtain a as where env: "Environment (form_appliances req) ?creds False = a # as"
    by (cases "Environment (form_appliances req) ?creds False") auto
  have "hostname a = hd (form_appliances req)"
    using arg_cong [OF env, of "map hostname"] creds by (simp add: Environment_hostnames)
  moreover obtain p ps where ps: "form_providers req = p # ps"
    using provs by (cases "form_providers req") auto
  ultimately show ?thesis
    using first apps
    by (simp add: status_attempt_cases decode_credentials_cookie [of "cookies req", OF k] env ps
        get_status_def del: provider_category_takeWhile)
qed

lemma status_attempt_first_auth:
  assumes "\<forall>a c. device w (length (queries w)) a c = QAuthFailure"
    and "form_appliances req \<noteq> []" and "form_providers req \<noteq> []"
    and "cookies req cookie_name \<noteq> None"
    and "length (form_credentials req) = length (form_appliances req)"
  shows "\<exists>q. status_attempt L req w = (Inl AuthenticationFailure, w\<lparr>queries := queries w @ [q]\<rparr>)"
  using status_attempt_first_auth_query [OF assms] by blast

lemma status_attempt_Inr:
  assumes "status_attempt L req w = (Inr resp, w')"
  obtains creds where "decode_credentials L (cookies req) (form_credentials req) = Inr creds"
    "form_appliances req \<noteq> []"
    "collect_providers L (form_providers req) (Environment (form_appliances req) creds False)
       (initial_response (form_appliances req) (Timestamp_short L (clock w))) w = (Inr resp, w')"
  using assms by (auto simp: status_attempt_cases split: sum.splits if_splits)

text \<open>
  C9. A successful attempt sends exactly one query per requested provider and appliance,
  provider by provider and in appliance order; a provider requested twice is queried
  twice, and two providers of the same category are not batched.
\<close>

theorem status_attempt_queries:
  assumes "status_attempt L req w = (Inr resp, w')"
    and "length (form_credentials req) = length (form_appliances req)"
  shows "queries w' = queries w @
           concat (map (\<lambda>p. map (\<lambda>h. (h, provider_category p)) (form_appliances req))
                     (form_providers req))"
proof -
  from assms(1) obtain creds where
    dec: "decode_credentials L (cookies req) (form_credentials req) = Inr creds" and
    run: "collect_providers L (form_providers req) (Environment (form_appliances req) creds False)
            (initial_response (form_appliances req) (Timestamp_short L (clock w))) w = (Inr resp, w')"
    by (rule status_attempt_Inr)
  have hosts: "map hostname (Environment (form_appliances req) creds False) = form_appliances req"
    using decode_credentials_Inr [OF dec] assms(2) by (simp add: Environment_hostnames)
  have row: "map (\<lambda>a. (hostname a, c)) (Environment (form_appliances req) creds False) =
              map (\<lambda>h. (h, c)) (form_appliances req)" for c
    using arg_cong [OF hosts, of "map (\<lambda>h. (h, c))"] by (simp add: comp_def)
  from collect_providers_queries [OF run] show ?thesis
    by (simp add: query_plan_def row del: provider_category_takeWhile)
qed

subsection \<open>Lemmas: which appliance handles the handler talks to\<close>

text \<open>
  The loops consult the appliances only through the handles of the environment, and
  the environment pairs each host name with the credential at the same position
  (lines 70--75): two devices that agree on those handles give the same run.
\<close>

lemma collect_provider_device:
  "collect_provider L p c as acc w = (r, w') \<Longrightarrow>
   (\<And>j a c'. a \<in> set as \<Longrightarrow> d j a c' = device w j a c') \<Longrightarrow>
   collect_provider L p c as acc (w\<lparr>device := d\<rparr>) = (r, w'\<lparr>device := d\<rparr>)"
proof (induction as arbitrary: acc w)
  case (Cons a as)
  have d: "d (length (queries w)) a c = device w (length (queries w)) a c" using Cons.prems(2) by simp
  have IH: "collect_provider L p c as acc' (w\<lparr>device := d, queries := queries w @ [(hostname a, c)]\<rparr>) =
              (r, w'\<lparr>device := d\<rparr>)"
    if "collect_provider L p c as acc' (logged w a c) = (r, w')" for acc'
  proof -
    have eq: "w\<lparr>device := d, queries := queries w @ [(hostname a, c)]\<rparr> = (logged w a c)\<lparr>device := d\<rparr>"
      by (cases w) simp
    show ?thesis
      unfolding eq by (rule Cons.IH [OF that]) (simp add: Cons.prems(2))
  qed
  show ?case using Cons.prems(1) d IH
    by (cases "device w (length (queries w)) a c") (auto simp: get_status_def split: option.splits)
qed simp

lemma collect_providers_device:
  "collect_providers L ps env resp w = (r, w') \<Longrightarrow>
   (\<And>j a c. a \<in> set env \<Longrightarrow> d j a c = device w j a c) \<Longrightarrow>
   collect_providers L ps env resp (w\<lparr>device := d\<rparr>) = (r, w'\<lparr>device := d\<rparr>)"
proof (induction ps arbitrary: resp w)
  case (Cons p ps)
  from Cons.prems(1) show ?case
  proof (cases rule: collect_providers_Cons_inv)
    case (stop e)
    with collect_provider_device [OF stop(1)] Cons.prems(2) show ?thesis by simp
  next
    case (more vs w1)
    have dev: "device w1 = device w" using collect_provider_frame [OF more(1)] by simp
    have "collect_providers L ps env (resp(p \<mapsto> JArr vs)) (w1\<lparr>device := d\<rparr>) = (r, w'\<lparr>device := d\<rparr>)"
      by (rule Cons.IH [OF more(2)]) (simp add: dev Cons.prems(2))
    with collect_provider_device [OF more(1)] Cons.prems(2) show ?thesis
      by (simp add: Let_def)
  qed
qed simp

lemma Environment_member:
  "a \<in> set (Environment hs cs chk) \<Longrightarrow>
   \<exists>i. i < length hs \<and> i < length cs \<and> a = \<lparr>hostname = hs ! i, credential = cs ! i, check_hostname = chk\<rparr>"
  by (auto simp: Environment_def set_zip)

lemma status_attempt_device:
  assumes cookie: "cookies req cookie_name = Some k"
    and agree: "\<And>i j c. i < length (form_appliances req) \<Longrightarrow> i < length (form_credentials req) \<Longrightarrow>
          d j \<lparr>hostname = form_appliances req ! i,
               credential = xordecode L (form_credentials req ! i) (xorencode L k),
               check_hostname = False\<rparr> c =
          device w j \<lparr>hostname = form_appliances req ! i,
               credential = xordecode L (form_credentials req ! i) (xorencode L k),
               check_hostname = False\<rparr> c"
    and run: "status_attempt L req w = (r, w')"
  shows "status_attempt L req (w\<lparr>device := d\<rparr>) = (r, w'\<lparr>device := d\<rparr>)"
proof (cases "form_appliances req = []")
  case True
  with run show ?thesis by (simp add: status_attempt_cases decode_credentials_cookie [of "cookies req", OF cookie])
next
  case False
  let ?env = "Environment (form_appliances req)
                (map (\<lambda>c. xordecode L c (xorencode L k)) (form_credentials req)) False"
  from False run have loop: "collect_providers L (form_providers req) ?env
      (initial_response (form_appliances req) (Timestamp_short L (clock w))) w = (r, w')"
    by (simp add: status_attempt_cases decode_credentials_cookie [of "cookies req", OF cookie])
  have "d j a c = device w j a c" if "a \<in> set ?env" for j a c
    using Environment_member [OF that] agree by fastforce
  with collect_providers_device [OF loop] False show ?thesis
    by (simp add: status_attempt_cases decode_credentials_cookie [of "cookies req", OF cookie])
qed

end
