(* ===== verification/Collect_Spec.thy ===== *)
theory Collect_Spec
  imports Collector
begin

text \<open>
  An abstract specification of one attempt of the handler, for appliances whose answers
  do not depend on when they are asked (a function \<open>D\<close> of the appliance and the
  category): every cell of the metrics \<open>\<times>\<close> appliances matrix is fetched on its own
  (\<open>fetch_metric\<close>), the first failing cell in provider-major order is the error, and
  otherwise each provider's row is stored under its name, a later request of the same
  name replacing an earlier one. The refinement lemma shows that the two nested loops
  with their accumulators compute exactly this.
\<close>

definition fetch_metric ::
  "mastlib \<Rightarrow> (appliance \<Rightarrow> string \<Rightarrow> qresult) \<Rightarrow> string \<Rightarrow> appliance \<Rightarrow> error + json" where
  "fetch_metric L D provider a =
     (case D a (provider_category provider) of
        QAuthFailure \<Rightarrow> Inl AuthenticationFailure
      | QError m \<Rightarrow> Inl (DeviceError m)
      | QStatus doc \<Rightarrow>
          (case PROVIDER_MAP (STATUS_XPATH L) provider of
             None \<Rightarrow> Inl (KeyError provider)
           | Some path \<Rightarrow>
               (case doc path of None \<Rightarrow> Inl AttributeError | Some t \<Rightarrow> Inr (metric_json t))))"

definition collect_spec ::
  "mastlib \<Rightarrow> (appliance \<Rightarrow> string \<Rightarrow> qresult) \<Rightarrow> string list \<Rightarrow> appliance list \<Rightarrow>
   response \<Rightarrow> error + response" where
  "collect_spec L D providers env resp =
     (case traverse_sum (\<lambda>p. map_sum id (\<lambda>vs. (p, JArr vs)) (traverse_sum (fetch_metric L D p) env))
             providers of
        Inl e \<Rightarrow> Inl e
      | Inr rows \<Rightarrow> Inr (resp ++ map_of (rev rows)))"

definition attempt_spec ::
  "mastlib \<Rightarrow> (appliance \<Rightarrow> string \<Rightarrow> qresult) \<Rightarrow> request \<Rightarrow> nat \<Rightarrow> error + response" where
  "attempt_spec L D req t =
     (case decode_credentials L (cookies req) (form_credentials req) of
        Inl e \<Rightarrow> Inl e
      | Inr creds \<Rightarrow>
          if form_appliances req = [] then Inl NotFound404
          else collect_spec L D (form_providers req)
                 (Environment (form_appliances req) creds False)
                 (initial_response (form_appliances req) (Timestamp_short L t)))"

abbreviation answers_from :: "world \<Rightarrow> (appliance \<Rightarrow> string \<Rightarrow> qresult) \<Rightarrow> bool" where
  "answers_from w D \<equiv> \<forall>i \<ge> length (queries w). device w i = D"

lemma collect_provider_refines:
  "answers_from w D \<Longrightarrow>
   fst (collect_provider L p (provider_category p) as acc w) =
   map_sum id ((@) acc) (traverse_sum (fetch_metric L D p) as)"
proof (induction as arbitrary: acc w)
  case (Cons a as)
  have ans: "device w (length (queries w)) = D" using Cons.prems by simp
  have next_w: "answers_from (logged w a (provider_category p)) D" using Cons.prems by simp
  show ?case
    using Cons.IH [OF next_w] ans
    by (auto simp: get_status_def fetch_metric_def split: qresult.splits option.splits sum.splits)
qed simp

lemma answers_from_later:
  "answers_from w D \<Longrightarrow> device w' = device w \<Longrightarrow> length (queries w) \<le> length (queries w') \<Longrightarrow>
   answers_from w' D"
  by simp

lemma collect_spec_Cons:
  "collect_spec L D (p # ps) env resp =
     (case traverse_sum (fetch_metric L D p) env of
        Inl e \<Rightarrow> Inl e
      | Inr vs \<Rightarrow> collect_spec L D ps env (resp(p \<mapsto> JArr vs)))"
  by (auto simp: collect_spec_def map_add_upd_left split: sum.splits)

lemma collect_providers_refines:
  "answers_from w D \<Longrightarrow> fst (collect_providers L ps env resp w) = collect_spec L D ps env resp"
proof (induction ps arbitrary: resp w)
  case Nil
  then show ?case by (simp add: collect_spec_def)
next
  case (Cons p ps)
  obtain r1 w1 where run: "collect_provider L p (provider_category p) env [] w = (r1, w1)"
    by fastforce
  have cell: "r1 = map_sum id ((@) []) (traverse_sum (fetch_metric L D p) env)"
    using collect_provider_refines [OF Cons.prems, of L p env "[]"] run by simp
  have "answers_from w1 D"
    using Cons.prems collect_provider_frame [OF run] collect_provider_queries [OF run]
    by (auto dest: prefix_length_le)
  with Cons.IH cell run show ?case
    by (auto simp: collect_spec_Cons fun_upd_def simp del: provider_category_takeWhile split: sum.splits)
qed

lemma status_attempt_refines:
  "answers_from w D \<Longrightarrow> fst (status_attempt L req w) = attempt_spec L D req (clock w)"
  by (simp add: status_attempt_cases attempt_spec_def collect_providers_refines split: sum.splits)

lemma fetch_metric_no_auth:
  "(\<forall>a c. D a c \<noteq> QAuthFailure) \<Longrightarrow> fetch_metric L D p a \<noteq> Inl AuthenticationFailure"
  by (auto simp: fetch_metric_def split: qresult.splits option.splits)

lemma collect_spec_no_auth:
  assumes D: "\<forall>a c. D a c \<noteq> QAuthFailure"
  shows "collect_spec L D ps env resp \<noteq> Inl AuthenticationFailure"
proof
  assume "collect_spec L D ps env resp = Inl AuthenticationFailure"
  then have "traverse_sum (\<lambda>p. map_sum id (\<lambda>vs. (p, JArr vs)) (traverse_sum (fetch_metric L D p) env))
               ps = Inl AuthenticationFailure"
    by (simp add: collect_spec_def split: sum.splits)
  then obtain p where "map_sum id (\<lambda>vs. (p, JArr vs)) (traverse_sum (fetch_metric L D p) env)
                         = Inl AuthenticationFailure"
    by (blast dest: traverse_sum_Inl)
  then have "traverse_sum (fetch_metric L D p) env = Inl AuthenticationFailure"
    by (cases "traverse_sum (fetch_metric L D p) env") auto
  then obtain a where "fetch_metric L D p a = Inl AuthenticationFailure"
    by (blast dest: traverse_sum_Inl)
  with fetch_metric_no_auth [OF D] show False by blast
qed

end
