(* ===== verification/Retry.thy ===== *)
theory Retry
  imports Collect_Spec
begin

text \<open>
  The restart of \<^verbatim>\<open>WebPlugin.status\<close> (\<^verbatim>\<open>status.py\<close>, lines 93--105): when
  \<^verbatim>\<open>get_status\<close> raises \<^verbatim>\<open>AuthenticationFailure\<close>, the handler sleeps two seconds
  and returns \<^verbatim>\<open>self.status()\<close>, which runs the whole body again on the same request,
  with a new timestamp, a new environment and an empty response. The inner call handles
  its own \<^verbatim>\<open>AuthenticationFailure\<close> the same way, so nothing in the code bounds the
  number of restarts: the handler is a loop that may not end, modelled with
  \<^theory_text>\<open>partial_function (option)\<close>, where \<open>None\<close> means that it never returns.
  The \<^verbatim>\<open>except: ... raise\<close> around the inner call only logs and re-raises, so the
  inner call's outcome is the outer call's. A second definition counts the attempts
  with fuel, and a third, \<open>status_rec\<close>, adds the interpreter's recursion limit; the
  three agree on every result the limit leaves room for.
\<close>

fun is_auth_failure :: "error + response \<Rightarrow> bool" where
  "is_auth_failure (Inl AuthenticationFailure) = True"
| "is_auth_failure _ = False"

partial_function (option) status ::
  "mastlib \<Rightarrow> request \<Rightarrow> world \<Rightarrow> ((error + response) \<times> world) option" where
  "status L req w =
     (let (r, w') = status_attempt L req w in
      if is_auth_failure r then status L req (sleep 2 w') else Some (r, w'))"

fun status_fuel ::
  "nat \<Rightarrow> mastlib \<Rightarrow> request \<Rightarrow> world \<Rightarrow> ((error + response) \<times> world) option" where
  "status_fuel 0 L req w = None"
| "status_fuel (Suc n) L req w =
     (let (r, w') = status_attempt L req w in
      if is_auth_failure r then status_fuel n L req (sleep 2 w') else Some (r, w'))"

text \<open>
  The handler as the Python process runs it: each restart is a nested call of
  \<^verbatim>\<open>self.status()\<close> (line 101), and the interpreter's recursion limit bounds the
  nesting. \<open>status_rec d\<close> is a call with room for \<open>d\<close> more handler frames; a call
  without room raises \<^verbatim>\<open>RuntimeError\<close> (maximum recursion depth exceeded), which every
  enclosing \<^verbatim>\<open>except: ... raise\<close> re-raises. The depth is a parameter: it is the
  interpreter's limit divided by the frames one restart takes (the handler, its
  \<^verbatim>\<open>@logged\<close> wrapper, the Flask dispatch), which the repository does not fix.
\<close>

fun status_rec ::
  "nat \<Rightarrow> mastlib \<Rightarrow> request \<Rightarrow> world \<Rightarrow> (error + response) \<times> world" where
  "status_rec 0 L req w = (Inl RecursionLimit, w)"
| "status_rec (Suc n) L req w =
     (let (r, w') = status_attempt L req w in
      if is_auth_failure r then status_rec n L req (sleep 2 w') else (r, w'))"

subsection \<open>Fuel and the recursive definition agree\<close>

lemma status_unfold:
  "status L req w =
     (case status_attempt L req w of
        (r, w') \<Rightarrow> if is_auth_failure r then status L req (sleep 2 w') else Some (r, w'))"
  by (subst status.simps) (simp add: Let_def)

lemma status_fuel_sound:
  "status_fuel n L req w = Some x \<Longrightarrow> status L req w = Some x"
proof (induction n arbitrary: w)
  case (Suc n)
  then show ?case
    by (auto simp: status_unfold [of L req w] split: prod.splits if_splits)
qed simp

lemma status_fuel_complete:
  assumes "status L req w = Some x"
  shows "\<exists>n. status_fuel n L req w = Some x"
proof (rule status.raw_induct [where P = "\<lambda>L req w x. \<exists>n. status_fuel n L req w = Some x", OF _ assms])
  fix stat :: "mastlib \<Rightarrow> request \<Rightarrow> world \<Rightarrow> ((error + response) \<times> world) option"
  fix L req w x
  assume IH: "\<And>L req w x. stat L req w = Some x \<Longrightarrow> \<exists>n. status_fuel n L req w = Some x"
    and eq: "(let (r, w') = status_attempt L req w in
              if is_auth_failure r then stat L req (sleep 2 w') else Some (r, w')) = Some x"
  obtain r w' where att: "status_attempt L req w = (r, w')" by fastforce
  show "\<exists>n. status_fuel n L req w = Some x"
  proof (cases "is_auth_failure r")
    case True
    with eq att have "stat L req (sleep 2 w') = Some x" by simp
    then obtain n where "status_fuel n L req (sleep 2 w') = Some x" using IH by blast
    with True att have "status_fuel (Suc n) L req w = Some x" by simp
    then show ?thesis ..
  next
    case False
    with eq att have "x = (r, w')" by simp
    with False att have "status_fuel (Suc 0) L req w = Some x" by simp
    then show ?thesis ..
  qed
qed

lemma status_fuel_mono:
  "status_fuel n L req w = Some x \<Longrightarrow> n \<le> m \<Longrightarrow> status_fuel m L req w = Some x"
proof (induction n arbitrary: m w)
  case (Suc n)
  then obtain m' where m: "m = Suc m'" "n \<le> m'" by (cases m) auto
  obtain r w' where att: "status_attempt L req w = (r, w')" by fastforce
  show ?case
  proof (cases "is_auth_failure r")
    case True
    with Suc.prems(1) att have "status_fuel n L req (sleep 2 w') = Some x" by simp
    with Suc.IH m(2) have "status_fuel m' L req (sleep 2 w') = Some x" by blast
    with True att m(1) show ?thesis by simp
  next
    case False
    with Suc.prems(1) att have "x = (r, w')" by simp
    with False att m(1) show ?thesis by simp
  qed
qed simp

lemma status_fuel_no_auth:
  "status_fuel n L req w = Some (r, w') \<Longrightarrow> \<not> is_auth_failure r"
  by (induction n arbitrary: w) (auto split: prod.splits if_splits)

lemma is_auth_failure_iff: "is_auth_failure r \<longleftrightarrow> r = Inl AuthenticationFailure"
  by (cases r rule: is_auth_failure.cases) auto

lemma attempt_spec_no_auth:
  "(\<forall>a c. D a c \<noteq> QAuthFailure) \<Longrightarrow> \<not> is_auth_failure (attempt_spec L D req t)"
  by (auto simp: is_auth_failure_iff attempt_spec_def split: sum.splits
      dest: decode_credentials_Inl collect_spec_no_auth)

lemma status_fuel_enough:
  assumes "\<forall>i \<ge> k. \<forall>a c. device w i a c \<noteq> QAuthFailure"
  shows "\<exists>x. status_fuel (Suc (k - length (queries w))) L req w = Some x"
  using assms
proof (induction "k - length (queries w)" arbitrary: w rule: less_induct)
  case less
  obtain r w' where att: "status_attempt L req w = (r, w')" by fastforce
  show ?case
  proof (cases "is_auth_failure r")
    case False
    with att show ?thesis by simp
  next
    case True
    then have "status_attempt L req w = (Inl AuthenticationFailure, w')"
      using att by (simp add: is_auth_failure_iff)
    from status_attempt_auth [OF this] obtain a c where
      grow: "length (queries w) < length (queries w')" and
      fail: "device w (length (queries w') - 1) a c = QAuthFailure" by blast
    have "\<not> k \<le> length (queries w') - 1" using less.prems fail by blast
    with grow have le: "length (queries w') \<le> k" by linarith
    have frame: "device w' = device w" using att by (simp add: world_frame)
    let ?w2 = "sleep 2 w'"
    have dec: "k - length (queries ?w2) < k - length (queries w)" using grow le by simp
    have "\<forall>i \<ge> k. \<forall>a c. device ?w2 i a c \<noteq> QAuthFailure" using less.prems frame by simp
    from less.hyps [OF dec this] obtain x where
      "status_fuel (Suc (k - length (queries ?w2))) L req ?w2 = Some x" by blast
    then have "status_fuel (k - length (queries w)) L req ?w2 = Some x"
      by (rule status_fuel_mono) (use dec in simp)
    with True att show ?thesis by auto
  qed
qed

lemma status_fuel_final:
  "status_fuel n L req w = Some (r, w') \<Longrightarrow>
   \<exists>w0. status_attempt L req w0 = (r, w') \<and> device w0 = device w \<and> clock w \<le> clock w0"
proof (induction n arbitrary: w)
  case (Suc n)
  obtain r1 w1 where att: "status_attempt L req w = (r1, w1)" by fastforce
  show ?case
  proof (cases "is_auth_failure r1")
    case True
    with Suc.prems att have "status_fuel n L req (sleep 2 w1) = Some (r, w')" by simp
    from Suc.IH [OF this] status_attempt_frame [OF att] show ?thesis by auto
  next
    case False
    with Suc.prems att show ?thesis by auto
  qed
qed simp

lemma status_fuel_world:
  "status_fuel m L req w = Some (r, w') \<Longrightarrow>
   \<exists>n < m. status_fuel (Suc n) L req w = Some (r, w') \<and> clock w' = clock w + 2 * n \<and>
            prefix (queries w) (queries w') \<and> device w' = device w"
proof (induction m arbitrary: w)
  case (Suc m)
  obtain r1 w1 where att: "status_attempt L req w = (r1, w1)" by fastforce
  note frame = status_attempt_frame [OF att] and log = status_attempt_log [OF att]
  show ?case
  proof (cases "is_auth_failure r1")
    case True
    with Suc.prems att have "status_fuel m L req (sleep 2 w1) = Some (r, w')" by simp
    from Suc.IH [OF this] obtain n where "n < m"
      and run: "status_fuel (Suc n) L req (sleep 2 w1) = Some (r, w')"
      and clk: "clock w' = clock (sleep 2 w1) + 2 * n"
      and pre: "prefix (queries (sleep 2 w1)) (queries w')"
      and dev: "device w' = device (sleep 2 w1)" by blast
    from run True att have "status_fuel (Suc (Suc n)) L req w = Some (r, w')" by simp
    moreover have "clock w' = clock w + 2 * Suc n" using clk frame by simp
    moreover have "prefix (queries w) (queries w')"
      using log pre by (auto dest: prefix_order.trans)
    ultimately show ?thesis using \<open>n < m\<close> dev frame by auto
  next
    case False
    with Suc.prems att have "(r, w') = (r1, w1)" by simp
    with False att frame log show ?thesis by auto
  qed
qed simp

lemma status_final_attempt:
  "status L req w = Some (r, w') \<Longrightarrow>
   \<exists>w0. status_attempt L req w0 = (r, w') \<and> device w0 = device w \<and> clock w \<le> clock w0"
  by (blast dest: status_fuel_complete status_fuel_final)

subsection \<open>A big-step semantics of the handler\<close>

text \<open>
  The handler as an inductive relation between a world and the result it returns: an
  attempt that ends in anything but \<^verbatim>\<open>AuthenticationFailure\<close> is the answer, and one
  that ends in it is followed, two seconds later, by the run from the new world.
\<close>

inductive status_big :: "mastlib \<Rightarrow> request \<Rightarrow> world \<Rightarrow> (error + response) \<times> world \<Rightarrow> bool"
  for L :: mastlib and req :: request where
  answer: "status_attempt L req w = (r, w') \<Longrightarrow> \<not> is_auth_failure r \<Longrightarrow>
    status_big L req w (r, w')"
| retry: "status_attempt L req w = (r, w1) \<Longrightarrow> is_auth_failure r \<Longrightarrow>
    status_big L req (sleep 2 w1) x \<Longrightarrow> status_big L req w x"

inductive_cases status_big_inv: "status_big L req w x"

text \<open>
  A first attempt that does not fail authentication is the answer: inversion of the
  big-step relation.
\<close>

lemma status_big_first_answer:
  assumes "status_big L req w x" and "status_attempt L req w = (r, w')"
    and "\<not> is_auth_failure r"
  shows "x = (r, w')"
  using assms(1)
  by (rule status_big_inv) (use assms(2,3) in auto)

lemma status_big_status: "status_big L req w x \<Longrightarrow> status L req w = Some x"
proof (induction rule: status_big.induct)
  case (answer w r w')
  then show ?case by (simp add: status_unfold [of L req w])
next
  case (retry w r w1 x)
  then show ?case by (simp add: status_unfold [of L req w])
qed

lemma status_fuel_big: "status_fuel n L req w = Some x \<Longrightarrow> status_big L req w x"
proof (induction n arbitrary: w)
  case (Suc n)
  obtain r w1 where att: "status_attempt L req w = (r, w1)" by fastforce
  show ?case
  proof (cases "is_auth_failure r")
    case True
    with Suc.prems att have "status_fuel n L req (sleep 2 w1) = Some x" by simp
    with Suc.IH att True show ?thesis by (blast intro: status_big.retry)
  next
    case False
    with Suc.prems att have "x = (r, w1)" by simp
    with att False show ?thesis by (blast intro: status_big.answer)
  qed
qed simp

text \<open>
  The big-step semantics, one rule per way an attempt ends, and the recursive
  handler define the same results.
\<close>

lemma status_big_iff: "status_big L req w x \<longleftrightarrow> status L req w = Some x"
proof
  assume "status L req w = Some x"
  then obtain n where "status_fuel n L req w = Some x" by (blast dest: status_fuel_complete)
  then show "status_big L req w x" by (rule status_fuel_big)
qed (rule status_big_status)


subsection \<open>Termination, divergence and the single retry\<close>

text \<open>
  C4. The handler returns as soon as the appliances stop answering with an authentication
  failure: if no query from position \<open>k\<close> of the log on fails that way, it returns a
  result, after at most \<open>k - |log| + 1\<close> attempts.
\<close>

theorem status_terminates:
  assumes "\<forall>i \<ge> k. \<forall>a c. device w i a c \<noteq> QAuthFailure"
  shows "\<exists>x. status L req w = Some x \<and> status_fuel (Suc (k - length (queries w))) L req w = Some x"
  using status_fuel_enough [OF assms] status_fuel_sound by blast

lemma status_fuel_auth_invariant:
  assumes step: "\<And>w. P w \<Longrightarrow>
                   \<exists>q. status_attempt L req w = (Inl AuthenticationFailure, w\<lparr>queries := queries w @ [q]\<rparr>)"
    and keep: "\<And>w q. P w \<Longrightarrow> P (sleep 2 (w\<lparr>queries := queries w @ [q]\<rparr>))"
    and "P w"
  shows "status_fuel n L req w = None"
  using assms(3)
proof (induction n arbitrary: w)
  case (Suc n)
  from step [OF Suc.prems] obtain q where
    att: "status_attempt L req w = (Inl AuthenticationFailure, w\<lparr>queries := queries w @ [q]\<rparr>)" ..
  from Suc.IH [OF keep [OF Suc.prems]] att show ?case by simp
qed simp

lemma status_fuel_all_auth:
  assumes "\<forall>i a c. device w i a c = QAuthFailure"
    and "form_appliances req \<noteq> []" and "form_providers req \<noteq> []"
    and "cookies req cookie_name \<noteq> None"
    and "length (form_credentials req) = length (form_appliances req)"
  shows "status_fuel n L req w = None"
  by (rule status_fuel_auth_invariant [where P = "\<lambda>w. \<forall>i a c. device w i a c = QAuthFailure"])
     (use status_attempt_first_auth [OF _ assms(2-)] assms(1) in auto)

text \<open>
  C3. The retry is not bounded: if every query fails with \<^verbatim>\<open>AuthenticationFailure\<close>,
  a well-formed request (appliances, providers, the credential cookie, one credential per
  appliance) makes the handler restart forever; it never returns. The spec asks for
  exactly one retry.
\<close>

theorem status_auth_forever:
  assumes "\<forall>i a c. device w i a c = QAuthFailure"
    and "form_appliances req \<noteq> []" and "form_providers req \<noteq> []"
    and "cookies req cookie_name \<noteq> None"
    and "length (form_credentials req) = length (form_appliances req)"
  shows "status L req w = None"
proof (rule ccontr)
  assume "status L req w \<noteq> None"
  then obtain x where "status L req w = Some x" by blast
  then obtain n where "status_fuel n L req w = Some x" by (blast dest: status_fuel_complete)
  with status_fuel_all_auth [OF assms] show False by simp
qed

text \<open>
  C5. One intermittent failure is absorbed by one retry: if only the first query fails
  with \<^verbatim>\<open>AuthenticationFailure\<close> and the appliances then answer like \<open>D\<close>, which never
  fails that way, one attempt is not enough, two are, and the answer is the specified
  result of an attempt made two seconds later.
\<close>

theorem status_retry_once:
  assumes dev: "device w = (\<lambda>i. if i = length (queries w) then (\<lambda>a c. QAuthFailure) else D)"
    and D: "\<forall>a c. D a c \<noteq> QAuthFailure"
    and apps: "form_appliances req \<noteq> []" and provs: "form_providers req \<noteq> []"
    and cookie: "cookies req cookie_name \<noteq> None"
    and creds: "length (form_credentials req) = length (form_appliances req)"
  shows "status_fuel 1 L req w = None \<and>
         (\<exists>w'. status L req w = Some (attempt_spec L D req (clock w + 2), w') \<and>
               status_fuel 2 L req w = Some (attempt_spec L D req (clock w + 2), w') \<and>
               clock w' = clock w + 2)"
proof -
  from status_attempt_first_auth [of w req L] dev apps provs cookie creds obtain q where
    att: "status_attempt L req w = (Inl AuthenticationFailure, w\<lparr>queries := queries w @ [q]\<rparr>)"
    by auto
  let ?w2 = "sleep 2 (w\<lparr>queries := queries w @ [q]\<rparr>)"
  have "answers_from ?w2 D" using dev by simp
  from status_attempt_refines [OF this, of L req]
  obtain w' where att2: "status_attempt L req ?w2 = (attempt_spec L D req (clock w + 2), w')"
    by (cases "status_attempt L req ?w2") simp
  have ok: "\<not> is_auth_failure (attempt_spec L D req (clock w + 2))"
    using attempt_spec_no_auth [OF D] .
  have clk: "clock w' = clock w + 2" using att2 by (simp add: world_frame)
  have f2: "status_fuel 2 L req w = Some (attempt_spec L D req (clock w + 2), w')"
    using att att2 ok by (simp add: numeral_2_eq_2)
  have f1: "status_fuel 1 L req w = None" using att by simp
  from f1 f2 clk status_fuel_sound [OF f2] show ?thesis by blast
qed

text \<open>
  C6. \<^verbatim>\<open>AuthenticationFailure\<close> never escapes the handler: whenever it returns, its
  result is a response or another error.
\<close>

theorem status_never_auth:
  "status L req w = Some (r, w') \<Longrightarrow> r \<noteq> Inl AuthenticationFailure"
  by (auto dest!: status_fuel_complete dest: status_fuel_no_auth simp: is_auth_failure_iff)

text \<open>
  Counting attempts changes nothing: the handler returns a result exactly when some
  number of attempts returns it.
\<close>

lemma status_fuel_equiv:
  "status L req w = Some x \<longleftrightarrow> (\<exists>n. status_fuel n L req w = Some x)"
  using status_fuel_complete status_fuel_sound by blast

text \<open>
  C15. What a returning call did to the world: if it needed \<open>n\<close> restarts, it slept
  exactly \<open>2 n\<close> seconds, it only appended to the query log, and the appliances are
  unchanged; the number of restarts is the fuel that reproduces the result.
\<close>

theorem status_world:
  assumes "status L req w = Some (r, w')"
  shows "\<exists>n. status_fuel (Suc n) L req w = Some (r, w') \<and> clock w' = clock w + 2 * n \<and>
             prefix (queries w) (queries w') \<and> device w' = device w"
proof -
  from status_fuel_complete [OF assms] obtain m where "status_fuel m L req w = Some (r, w')"
    by blast
  from status_fuel_world [OF this] show ?thesis by blast
qed

subsection \<open>The recursion limit\<close>

text \<open>
  The loops raise only the errors of \<^verbatim>\<open>get_status\<close> and of the lookup (line 110):
  never the 404, the missing cookie, or the recursion error.
\<close>

lemma collect_provider_raises:
  "collect_provider L p c as acc w = (Inl e, w') \<Longrightarrow>
   e \<noteq> RecursionLimit \<and> e \<noteq> NotFound404 \<and> (\<forall>k. e \<noteq> CookieKeyError k)"
proof (induction as arbitrary: acc w)
  case (Cons a as)
  then show ?case
    by (fastforce simp: get_status_def split: qresult.splits option.splits)
qed auto

lemma collect_providers_raises:
  "collect_providers L ps env resp w = (Inl e, w') \<Longrightarrow>
   e \<noteq> RecursionLimit \<and> e \<noteq> NotFound404 \<and> (\<forall>k. e \<noteq> CookieKeyError k)"
proof (induction ps arbitrary: resp w)
  case (Cons p ps)
  from Cons.prems show ?case
  proof (cases rule: collect_providers_Cons_inv)
    case (stop e')
    then show ?thesis by (blast dest: collect_provider_raises)
  next
    case (more vs w1)
    from more(2) show ?thesis by (rule Cons.IH)
  qed
qed auto

lemma status_attempt_not_limit:
  "status_attempt L req w = (r, w') \<Longrightarrow> r \<noteq> Inl RecursionLimit"
  by (auto simp: status_attempt_cases split: sum.splits if_splits
      dest: decode_credentials_Inl collect_providers_raises)

text \<open>
  The depth-limited handler is the counted one: with room for \<open>n\<close> frames it
  returns what \<open>n\<close> attempts return, and it raises the recursion error exactly when
  \<open>n\<close> attempts are not enough.
\<close>

lemma status_rec_fuel:
  "(status_fuel n L req w = Some x \<longrightarrow> status_rec n L req w = x) \<and>
   (status_fuel n L req w = None \<longleftrightarrow> fst (status_rec n L req w) = Inl RecursionLimit)"
proof (induction n arbitrary: w)
  case (Suc n)
  obtain r w1 where att: "status_attempt L req w = (r, w1)" by fastforce
  show ?case
    using Suc.IH [of "sleep 2 w1"] att status_attempt_not_limit [OF att] by auto
qed simp

text \<open>
  C20. If every query fails authentication, a well-formed request with room for \<open>n\<close>
  frames makes exactly \<open>n\<close> attempts, each sending one query for the first provider's
  category to the first appliance, sleeps \<open>2 n\<close> seconds, and ends in the recursion
  error.
\<close>

theorem status_rec_all_auth:
  assumes "\<forall>i a c. device w i a c = QAuthFailure"
    and "form_appliances req \<noteq> []" and "form_providers req \<noteq> []"
    and "cookies req cookie_name \<noteq> None"
    and "length (form_credentials req) = length (form_appliances req)"
  shows "status_rec n L req w =
           (Inl RecursionLimit,
            w\<lparr>clock := clock w + 2 * n,
              queries := queries w @
                replicate n (hd (form_appliances req), provider_category (hd (form_providers req)))\<rparr>)"
  using assms(1)
proof (induction n arbitrary: w)
  case (Suc n)
  let ?q = "(hd (form_appliances req), provider_category (hd (form_providers req)))"
  have att: "status_attempt L req w = (Inl AuthenticationFailure, w\<lparr>queries := queries w @ [?q]\<rparr>)"
    using status_attempt_first_auth_query [OF _ assms(2-)] Suc.prems by blast
  have "\<forall>i a c. device (sleep 2 (w\<lparr>queries := queries w @ [?q]\<rparr>)) i a c = QAuthFailure"
    using Suc.prems by simp
  from Suc.IH [OF this] att show ?case
    by (simp add: replicate_append_same [symmetric] del: provider_category_takeWhile)
qed simp

subsection \<open>The credentials each appliance is queried with\<close>



end
