(* ===== verification/Plugin.thy ===== *)
theory Plugin
  imports Retry
begin

text \<open>
  The plugin's start-up and static resources (\<^verbatim>\<open>status.py\<close>, lines 20--61): the
  module reads \<^verbatim>\<open>MAST_HOME\<close> from the process environment when it is imported,
  \<^verbatim>\<open>get_data_file\<close> reads a file of the package's \<^verbatim>\<open>data\<close> directory, the
  constructor of \<^verbatim>\<open>WebPlugin\<close> routes the plugin to the status handler and writes
  the default configuration file when there is none, and \<^verbatim>\<open>css\<close>, \<^verbatim>\<open>js\<close>
  and \<^verbatim>\<open>html\<close> return data files. The file system is a record of the regular
  files with their contents, the directories, and the paths the process may open for
  writing (the operating system's verdict on permissions and missing parents).
\<close>

record filesystem =
  files :: "string \<rightharpoonup> string"
  dirs :: "string set"
  writable :: "string set"

datatype plugin_error =
    EnvKeyError string  \<comment> \<open>\<^verbatim>\<open>os.environ[name]\<close> for an unset variable\<close>
  | IOError string  \<comment> \<open>\<^verbatim>\<open>open\<close> failed on this path\<close>

text \<open>\<^verbatim>\<open>os.path.exists\<close>: true for files and directories alike.\<close>

definition path_exists :: "filesystem \<Rightarrow> string \<Rightarrow> bool" where
  "path_exists fs p \<longleftrightarrow> p \<in> dom (files fs) \<or> p \<in> dirs fs"

text \<open>\<^verbatim>\<open>with open(path, "rb") as fin: return fin.read()\<close>\<close>

definition read_file :: "filesystem \<Rightarrow> string \<Rightarrow> plugin_error + string" where
  "read_file fs p = (case files fs p of None \<Rightarrow> Inl (IOError p) | Some content \<Rightarrow> Inr content)"

text \<open>\<^verbatim>\<open>with open(path, "w") as fout: fout.write(content)\<close>: truncates or creates.\<close>

definition write_file :: "filesystem \<Rightarrow> string \<Rightarrow> string \<Rightarrow> plugin_error + filesystem" where
  "write_file fs p content =
     (if p \<in> writable fs \<and> p \<notin> dirs fs then Inr (fs\<lparr>files := (files fs)(p \<mapsto> content)\<rparr>)
      else Inl (IOError p))"

text \<open>Line 20: \<^verbatim>\<open>mast_home = os.environ["MAST_HOME"]\<close>, evaluated on import.\<close>

definition import_mast_home :: "(string \<rightharpoonup> string) \<Rightarrow> plugin_error + string" where
  "import_mast_home environ =
     (case environ ''MAST_HOME'' of None \<Rightarrow> Inl (EnvKeyError ''MAST_HOME'') | Some h \<Rightarrow> Inr h)"

text \<open>
  Lines 24--28: \<^verbatim>\<open>get_data_file(f)\<close> reads \<^verbatim>\<open>os.path.join(dirname(__file__), "data", f)\<close>;
  \<open>module_file\<close> is \<^verbatim>\<open>__file__\<close>, the path of the installed \<^verbatim>\<open>status.py\<close>.
\<close>

definition get_data_file :: "string \<Rightarrow> filesystem \<Rightarrow> string \<Rightarrow> plugin_error + string" where
  "get_data_file module_file fs f =
     read_file fs (path_join (py_dirname module_file) [''data'', f])"

record web_plugin =
  route :: "mastlib \<Rightarrow> request \<Rightarrow> world \<Rightarrow> ((error + response) \<times> world) option"

definition config_path :: "string \<Rightarrow> string" where
  "config_path mast_home = path_join mast_home [''etc'', ''default'', ''status.conf'']"

text \<open>
  Lines 36--50, \<^verbatim>\<open>WebPlugin.__init__\<close>: route to the status handler, then, if the
  configuration path does not exist, \<^verbatim>\<open>open(config_file, "w")\<close> (which creates
  the file empty) and only then read the packaged \<^verbatim>\<open>plugin.conf\<close> and write it.
  The file system is returned on the error paths too, since what was created stays.
\<close>

definition WebPlugin_init ::
  "string \<Rightarrow> string \<Rightarrow> filesystem \<Rightarrow> (plugin_error + web_plugin) \<times> filesystem" where
  "WebPlugin_init mast_home module_file fs =
     (let self = \<lparr>route = status\<rparr>;
          config_file = config_path mast_home
      in if path_exists fs config_file then (Inr self, fs)
         else (case write_file fs config_file [] of
                 Inl e \<Rightarrow> (Inl e, fs)
               | Inr fs1 \<Rightarrow>
                   (case get_data_file module_file fs1 ''plugin.conf'' of
                      Inl e \<Rightarrow> (Inl e, fs1)
                    | Inr content \<Rightarrow>
                        (Inr self, fs1\<lparr>files := (files fs1)(config_file \<mapsto> content)\<rparr>))))"

text \<open>Lines 54--61: the static resources of the plugin page.\<close>

definition css :: "string \<Rightarrow> filesystem \<Rightarrow> plugin_error + string" where
  "css module_file fs = get_data_file module_file fs ''plugin.css''"

definition js :: "string \<Rightarrow> filesystem \<Rightarrow> plugin_error + string" where
  "js module_file fs = get_data_file module_file fs ''plugin.js''"

definition html :: "string \<Rightarrow> filesystem \<Rightarrow> plugin_error + string" where
  "html module_file fs = get_data_file module_file fs ''plugin.html''"

subsection \<open>Properties of the start-up\<close>

lemma config_path_exact:
  "mast_home \<noteq> [] \<Longrightarrow> last mast_home \<noteq> CHR ''/'' \<Longrightarrow>
   config_path mast_home = mast_home @ ''/etc/default/status.conf''"
  by (simp add: config_path_def path_join2_def)

lemma config_path_slash:
  "mast_home \<noteq> [] \<Longrightarrow> last mast_home = CHR ''/'' \<Longrightarrow>
   config_path mast_home = mast_home @ ''etc/default/status.conf''"
  by (simp add: config_path_def path_join2_def)

lemma write_file_Inr:
  "write_file fs p content = Inr fs' \<Longrightarrow> fs' = fs\<lparr>files := (files fs)(p \<mapsto> content)\<rparr>"
  by (simp add: write_file_def split: if_splits)

lemma path_exists_written [simp]:
  "path_exists (fs\<lparr>files := (files fs)(p \<mapsto> content)\<rparr>) p"
  by (simp add: path_exists_def)

lemma data_path_unwritten:
  "q \<noteq> p \<Longrightarrow> get_data_file d (fs\<lparr>files := (files fs)(p \<mapsto> x)\<rparr>) f = get_data_file d fs f"
  if "path_join (py_dirname d) [''data'', f] = q"
  using that by (simp add: get_data_file_def read_file_def)

text \<open>
  C12. On a first start (no configuration at the configuration path, the path writable,
  the packaged \<^verbatim>\<open>plugin.conf\<close> readable at another path) the constructor routes the
  plugin to the status handler and creates the configuration with the packaged contents,
  touching no other file.
\<close>

theorem WebPlugin_init_creates_config:
  assumes "\<not> path_exists fs (config_path h)"
    and "config_path h \<in> writable fs"
    and "path_join (py_dirname d) [''data'', ''plugin.conf''] \<noteq> config_path h"
    and "get_data_file d fs ''plugin.conf'' = Inr content"
  shows "WebPlugin_init h d fs =
           (Inr \<lparr>route = status\<rparr>, fs\<lparr>files := (files fs)(config_path h \<mapsto> content)\<rparr>)"
  using assms data_path_unwritten [OF refl assms(3)]
  by (simp add: WebPlugin_init_def write_file_def path_exists_def Let_def)

text \<open>
  C13. An existing configuration (file or directory) is never overwritten, and the
  packaged data file is then not even read.
\<close>

theorem WebPlugin_init_keeps_config:
  "path_exists fs (config_path h) \<Longrightarrow> WebPlugin_init h d fs = (Inr \<lparr>route = status\<rparr>, fs)"
  by (simp add: WebPlugin_init_def Let_def)

text \<open>
  C14. Without a configuration and without the packaged \<^verbatim>\<open>plugin.conf\<close>, the
  constructor fails with an I/O error on the data file's path, and leaves behind the
  empty configuration file it had already opened for writing.
\<close>

theorem WebPlugin_init_missing_data:
  assumes "\<not> path_exists fs (config_path h)"
    and "config_path h \<in> writable fs"
    and "path_join (py_dirname d) [''data'', ''plugin.conf''] \<noteq> config_path h"
    and "files fs (path_join (py_dirname d) [''data'', ''plugin.conf'']) = None"
  shows "WebPlugin_init h d fs =
           (Inl (IOError (path_join (py_dirname d) [''data'', ''plugin.conf''])),
            fs\<lparr>files := (files fs)(config_path h \<mapsto> [])\<rparr>)"
  using assms
  by (simp add: WebPlugin_init_def write_file_def path_exists_def get_data_file_def
      read_file_def Let_def)

text \<open>
  C16. That empty configuration is permanent: once a start has failed on the missing
  data file, a later start, even with \<^verbatim>\<open>plugin.conf\<close> installed, finds the
  configuration path taken, succeeds, and keeps the empty configuration.
\<close>

theorem WebPlugin_init_empty_config_sticks:
  assumes "\<not> path_exists fs (config_path h)"
    and "config_path h \<in> writable fs"
    and "path_join (py_dirname d) [''data'', ''plugin.conf''] \<noteq> config_path h"
    and "files fs (path_join (py_dirname d) [''data'', ''plugin.conf'']) = None"
    and "fs2 = (snd (WebPlugin_init h d fs))
                 \<lparr>files := (files (snd (WebPlugin_init h d fs)))
                     (path_join (py_dirname d) [''data'', ''plugin.conf''] \<mapsto> content)\<rparr>"
  shows "WebPlugin_init h d fs2 = (Inr \<lparr>route = status\<rparr>, fs2) \<and> files fs2 (config_path h) = Some []"
proof -
  have fs1: "snd (WebPlugin_init h d fs) = fs\<lparr>files := (files fs)(config_path h \<mapsto> [])\<rparr>"
    using assms(1-4)
    by (simp add: WebPlugin_init_def write_file_def path_exists_def get_data_file_def
        read_file_def Let_def)
  with assms(3,5) have cfg: "files fs2 (config_path h) = Some []" by simp
  then have "path_exists fs2 (config_path h)" by (simp add: path_exists_def domIff)
  with cfg show ?thesis by (simp add: WebPlugin_init_def Let_def)
qed

end
