(* ===== verification/Setup.thy ===== *)
theory Setup
  imports Plugin
begin

text \<open>
  The packaging script \<^verbatim>\<open>src/setup.py\<close>: the helper \<^verbatim>\<open>read\<close> (lines 9--10), the
  arguments of the \<^verbatim>\<open>setup(...)\<close> call (lines 12--37), and what setuptools'
  \<^verbatim>\<open>build_py\<close> installs of the plugin package from them: the package's top-level
  modules (\<^verbatim>\<open>*.py\<close>) and the files its \<^verbatim>\<open>package_data\<close> patterns match, with
  \<^verbatim>\<open>glob\<close> semantics (a pattern is matched component by component, \<^verbatim>\<open>*\<close> and
  \<^verbatim>\<open>?\<close> never cross a slash, and a wildcard component skips names that start with a
  dot). Bracket classes \<^verbatim>\<open>[...]\<close>, which no pattern of the script uses, are not
  modelled. Installation then meets the start-up of theory \<open>Plugin\<close>: the plugin reads
  its data files from the \<^verbatim>\<open>data\<close> directory beside \<^verbatim>\<open>status.py\<close>.
\<close>

subsection \<open>The script\<close>

text \<open>Lines 9--10: \<^verbatim>\<open>open(os.path.join(os.path.dirname(__file__), fname)).read()\<close>.\<close>

definition read :: "string \<Rightarrow> filesystem \<Rightarrow> string \<Rightarrow> plugin_error + string" where
  "read setup_file fs fname = read_file fs (path_join (py_dirname setup_file) [fname])"

text \<open>
  The keyword arguments of \<^verbatim>\<open>setup\<close>. Dictionaries are association lists in source
  order (\<^verbatim>\<open>entry_points\<close>: group to entry-point specifications;
  \<^verbatim>\<open>package_data\<close>: package to patterns).
\<close>

record setup_args =
  name :: string
  version :: string
  author :: string
  author_email :: string
  description :: string
  license :: string
  setup_keywords :: string  \<comment> \<open>\<^verbatim>\<open>keywords\<close>, a reserved word of the theory syntax\<close>
  url :: string
  namespace_packages :: "string list"
  packages :: "string list"
  entry_points :: "(string \<times> string list) list"
  package_data :: "(string \<times> string list) list"
  long_description :: string
  classifiers :: "string list"

definition setup_call :: "string \<Rightarrow> setup_args" where
  "setup_call readme =
     \<lparr>name = ''mast.datapower.status'',
      version = ''2.0.1'',
      author = ''Clifford Bressette'',
      author_email = ''cliffordbressette@mcindi.com'',
      description = ''A utility to help manage users and groups for IBM DataPower'',
      license = ''GPLv3'',
      setup_keywords = ''DataPower user group account rbm'',
      url = ''http://github.com/mcindi/mast.datapower.accounts'',
      namespace_packages = [''mast'', ''mast.datapower''],
      packages = [''mast'', ''mast.datapower'', ''mast.datapower.status''],
      entry_points = [(''mast_web_plugin'', [''status = mast.datapower.status:WebPlugin''])],
      package_data = [(''mast.datapower.status'', [''docroot/*''])],
      long_description = readme,
      classifiers = [''Development Status :: 5 - Production/Stable'', ''Topic :: Utilities'',
                     ''License :: OSI Approved :: GPLv3'']\<rparr>"

text \<open>
  Running the script: the argument \<^verbatim>\<open>long_description=read('README.md')\<close> is
  evaluated before \<^verbatim>\<open>setup\<close> is called, so a missing README aborts the script.
\<close>

definition setup_py :: "string \<Rightarrow> filesystem \<Rightarrow> plugin_error + setup_args" where
  "setup_py setup_file fs =
     (case read setup_file fs ''README.md'' of
        Inl e \<Rightarrow> Inl e
      | Inr readme \<Rightarrow> Inr (setup_call readme))"

subsection \<open>What setuptools installs\<close>

text \<open>\<^verbatim>\<open>fnmatch\<close> on one path component, for the wildcards \<^verbatim>\<open>*\<close> and \<^verbatim>\<open>?\<close>.\<close>

fun fnmatch_seg :: "string \<Rightarrow> string \<Rightarrow> bool" where
  "fnmatch_seg [] s = (s = [])"
| "fnmatch_seg (p # ps) [] = (p = CHR ''*'' \<and> fnmatch_seg ps [])"
| "fnmatch_seg (p # ps) (c # cs) =
     (if p = CHR ''*'' then fnmatch_seg ps (c # cs) \<or> fnmatch_seg (p # ps) cs
      else (p = CHR ''?'' \<or> p = c) \<and> fnmatch_seg ps cs)"

definition has_magic :: "string \<Rightarrow> bool" where
  "has_magic p \<longleftrightarrow> CHR ''*'' \<in> set p \<or> CHR ''?'' \<in> set p"

definition ishidden :: "string \<Rightarrow> bool" where
  "ishidden n \<longleftrightarrow> take 1 n = ''.''"

text \<open>
  \<^verbatim>\<open>glob.glob1\<close>: a wildcard component lists the directory, drops the hidden names
  unless the pattern itself is hidden, and keeps the names \<^verbatim>\<open>fnmatch\<close> accepts; a
  component without wildcards names exactly itself.
\<close>

definition glob_seg :: "string \<Rightarrow> string \<Rightarrow> bool" where
  "glob_seg p n =
     (if has_magic p then fnmatch_seg p n \<and> (if ishidden p then True else \<not> ishidden n)
      else n = p)"

definition glob_match :: "string \<Rightarrow> string \<Rightarrow> bool" where
  "glob_match pattern rel =
     list_all2 glob_seg (py_split CHR ''/'' pattern) (py_split CHR ''/'' rel)"

text \<open>
  \<^verbatim>\<open>build_py\<close>: the patterns of a package are those of the key \<^verbatim>\<open>''\<close> and those of
  the package (a dictionary literal keeps the last value of a repeated key); a file of
  a listed package is installed when it is a top-level module or matches a pattern.
\<close>

definition package_patterns :: "setup_args \<Rightarrow> string \<Rightarrow> string list" where
  "package_patterns args pkg =
     (case map_of (rev (package_data args)) [] of None \<Rightarrow> [] | Some ps \<Rightarrow> ps) @
     (case map_of (rev (package_data args)) pkg of None \<Rightarrow> [] | Some ps \<Rightarrow> ps)"

definition build_selects :: "setup_args \<Rightarrow> string \<Rightarrow> string \<Rightarrow> bool" where
  "build_selects args pkg rel \<longleftrightarrow>
     pkg \<in> set (packages args) \<and>
     (glob_match ''*.py'' rel \<or> list_ex (\<lambda>pat. glob_match pat rel) (package_patterns args pkg))"

text \<open>
  Installing the package whose source directory holds the files \<open>src\<close> (paths relative
  to that directory) into the directory \<open>target\<close> of the file system: the selected
  files are copied, the others are not.
\<close>

definition install_package ::
  "setup_args \<Rightarrow> string \<Rightarrow> (string \<rightharpoonup> string) \<Rightarrow> string \<Rightarrow> filesystem \<Rightarrow> filesystem" where
  "install_package args pkg src target fs =
     fs\<lparr>files := (\<lambda>p. if take (Suc (length target)) p = target @ ''/'' \<and>
                          build_selects args pkg (drop (Suc (length target)) p)
                       then src (drop (Suc (length target)) p) else files fs p),
        dirs := insert target (dirs fs)\<rparr>"

subsection \<open>Lemmas\<close>

lemma fnmatch_literal:
  "CHR ''*'' \<notin> set lit \<Longrightarrow> CHR ''?'' \<notin> set lit \<Longrightarrow> fnmatch_seg lit s \<longleftrightarrow> s = lit"
proof (induction lit arbitrary: s)
  case (Cons p ps)
  then show ?case by (cases s) auto
qed simp

lemma fnmatch_star_suffix:
  assumes "CHR ''*'' \<notin> set lit" "CHR ''?'' \<notin> set lit"
  shows "fnmatch_seg (CHR ''*'' # lit) s \<longleftrightarrow> (\<exists>pre. s = pre @ lit)"
proof (induction s)
  case Nil
  then show ?case using fnmatch_literal [OF assms] by auto
next
  case (Cons c cs)
  have "(\<exists>pre. c # cs = pre @ lit) \<longleftrightarrow> c # cs = lit \<or> (\<exists>pre. cs = pre @ lit)"
    by (auto simp: Cons_eq_append_conv)
  with Cons show ?case using fnmatch_literal [OF assms] by simp
qed

lemma glob_seg_star: "glob_seg ''*'' n \<longleftrightarrow> \<not> ishidden n"
  using fnmatch_star_suffix [of "[]" n] by (simp add: glob_seg_def has_magic_def ishidden_def)

lemma glob_seg_literal:
  "CHR ''*'' \<notin> set p \<Longrightarrow> CHR ''?'' \<notin> set p \<Longrightarrow> glob_seg p n \<longleftrightarrow> n = p"
  by (simp add: glob_seg_def has_magic_def)

lemma glob_match_docroot:
  "glob_match ''docroot/*'' rel \<longleftrightarrow>
     (\<exists>n. rel = ''docroot/'' @ n \<and> CHR ''/'' \<notin> set n \<and> \<not> ishidden n)"
proof -
  have pat: "py_split CHR ''/'' ''docroot/*'' = [''docroot'', ''*'']" by simp
  have "glob_match ''docroot/*'' rel \<longleftrightarrow>
          (\<exists>n. py_split CHR ''/'' rel = [''docroot'', n] \<and> \<not> ishidden n)"
    unfolding glob_match_def pat
    by (simp add: list_all2_Cons1 glob_seg_star glob_seg_literal) blast
  then show ?thesis by (simp add: py_split_pair) blast
qed

lemma glob_match_module:
  "glob_match ''*.py'' rel \<longleftrightarrow>
     CHR ''/'' \<notin> set rel \<and> \<not> ishidden rel \<and> (\<exists>m. rel = m @ ''.py'')"
proof -
  have pat: "py_split CHR ''/'' ''*.py'' = [''*.py'']" by simp
  have "glob_match ''*.py'' rel \<longleftrightarrow>
          (\<exists>n. py_split CHR ''/'' rel = [n] \<and> glob_seg ''*.py'' n)"
    unfolding glob_match_def pat by (simp add: list_all2_Cons1)
  also have "\<dots> \<longleftrightarrow> CHR ''/'' \<notin> set rel \<and> glob_seg ''*.py'' rel"
    by (simp add: py_split_single)
  finally show ?thesis
    by (simp add: glob_seg_def has_magic_def fnmatch_star_suffix ishidden_def) blast
qed

lemma packages_setup_call [simp]:
  "packages (setup_call r) = [''mast'', ''mast.datapower'', ''mast.datapower.status'']"
  by (simp add: setup_call_def)

lemma package_patterns_status [simp]:
  "package_patterns (setup_call r) ''mast.datapower.status'' = [''docroot/*'']"
  by (simp add: package_patterns_def setup_call_def)

lemma data_file_not_selected:
  "\<not> build_selects (setup_call r) ''mast.datapower.status'' (''data/'' @ f)"
  by (simp add: build_selects_def glob_match_docroot glob_match_module)

lemma install_package_file:
  "files (install_package args pkg src target fs) (target @ ''/'' @ rel) =
     (if build_selects args pkg rel then src rel else files fs (target @ ''/'' @ rel))"
  by (simp add: install_package_def)

lemma install_package_outside:
  "take (Suc (length target)) p \<noteq> target @ ''/'' \<Longrightarrow>
   files (install_package args pkg src target fs) p = files fs p"
  by (simp add: install_package_def)

lemma data_path_under:
  assumes "target \<noteq> []" and "last target \<noteq> CHR ''/''" and "take 1 f \<noteq> ''/''"
  shows "path_join (py_dirname (target @ ''/status.py'')) [''data'', f] = target @ ''/data/'' @ f"
  using assms by (simp add: pystr_simps path_join2_def)

lemma get_data_file_under:
  assumes "target \<noteq> []" and "last target \<noteq> CHR ''/''" and "take 1 f \<noteq> ''/''"
  shows "get_data_file (target @ ''/status.py'') fs f = read_file fs (target @ ''/'' @ ''data/'' @ f)"
  unfolding get_data_file_def data_path_under [OF assms] by simp

lemma install_no_data:
  assumes "target \<noteq> []" and "last target \<noteq> CHR ''/''" and "take 1 f \<noteq> ''/''"
  shows "get_data_file (target @ ''/status.py'')
           (install_package (setup_call r) ''mast.datapower.status'' src target fs) f =
         get_data_file (target @ ''/status.py'') fs f"
  unfolding get_data_file_under [OF assms] read_file_def install_package_file
  by (simp only: data_file_not_selected if_False)

lemma installed_plugin_conf_missing:
  assumes "target \<noteq> []" and "last target \<noteq> CHR ''/''"
    and "files fs0 (target @ ''/data/plugin.conf'') = None"
    and "q \<noteq> target @ ''/data/plugin.conf''"
  shows "get_data_file (target @ ''/status.py'')
           ((install_package (setup_call r) ''mast.datapower.status'' src target fs0)
              \<lparr>files := (files (install_package (setup_call r) ''mast.datapower.status'' src target fs0))
                         (q \<mapsto> x)\<rparr>) ''plugin.conf'' =
         Inl (IOError (target @ ''/data/plugin.conf''))"
proof -
  have "get_data_file (target @ ''/status.py'')
          (install_package (setup_call r) ''mast.datapower.status'' src target fs0) ''plugin.conf'' =
        Inl (IOError (target @ ''/data/plugin.conf''))"
    using install_no_data [OF assms(1,2), of "''plugin.conf''" r src fs0] assms(3)
    by (simp add: get_data_file_under [OF assms(1,2)] read_file_def)
  with assms(4) show ?thesis by (simp add: get_data_file_under [OF assms(1,2)] read_file_def)
qed

text \<open>
  C18. What installing the plugin package copies: exactly its top-level modules and
  the non-hidden files directly under \<^verbatim>\<open>docroot\<close>. Nothing of the \<^verbatim>\<open>data\<close>
  directory, from which \<^verbatim>\<open>get_data_file\<close> reads, is installed.
\<close>

theorem setup_installs:
  "build_selects (setup_call r) ''mast.datapower.status'' rel \<longleftrightarrow>
     (CHR ''/'' \<notin> set rel \<and> \<not> ishidden rel \<and> (\<exists>m. rel = m @ ''.py'')) \<or>
     (\<exists>n. rel = ''docroot/'' @ n \<and> CHR ''/'' \<notin> set n \<and> \<not> ishidden n)"
  by (simp add: build_selects_def glob_match_docroot glob_match_module)

text \<open>
  C19. Packaging and start-up together: on a tree installed by \<^verbatim>\<open>setup.py\<close>,
  whatever the source tree holds, the first start of the plugin fails with an I/O error
  on \<^verbatim>\<open>data/plugin.conf\<close> and leaves the empty configuration behind.
\<close>

theorem installed_plugin_start_fails:
  assumes "target \<noteq> []" and "last target \<noteq> CHR ''/''"
    and "fs = install_package (setup_call r) ''mast.datapower.status'' src target fs0"
    and "files fs0 (target @ ''/data/plugin.conf'') = None"
    and "\<not> path_exists fs (config_path h)" and "config_path h \<in> writable fs"
    and "config_path h \<noteq> target @ ''/data/plugin.conf''"
  shows "WebPlugin_init h (target @ ''/status.py'') fs =
           (Inl (IOError (target @ ''/data/plugin.conf'')),
            fs\<lparr>files := (files fs)(config_path h \<mapsto> [])\<rparr>)"
  using assms installed_plugin_conf_missing [OF assms(1,2,4,7), of r src]
  by (simp add: WebPlugin_init_def write_file_def path_exists_def Let_def)

end
