(* ===== verification/Lifecycle.thy ===== *)
theory Lifecycle
  imports Setup
begin

text \<open>
  The plugin over the life of an installation: every start of the console imports the
  module and constructs \<^verbatim>\<open>WebPlugin\<close> (\<^verbatim>\<open>status.py\<close>, lines 20 and 36--50),
  whatever the outcome of the previous start, and between starts the administrator or an installer
  writes other files (for instance installs the missing \<^verbatim>\<open>data/plugin.conf\<close>). The
  request handler and \<^verbatim>\<open>css\<close>, \<^verbatim>\<open>js\<close>, \<^verbatim>\<open>html\<close> only read, so they are not
  steps. The runs are an inductive relation from the file system before the first start
  to every file system reachable from it.
\<close>

text \<open>
  A start of the console process imports \<^verbatim>\<open>status.py\<close>, which reads
  \<^verbatim>\<open>MAST_HOME\<close> (line 20) and fails with a \<^verbatim>\<open>KeyError\<close> before touching any file
  when it is unset, and then constructs \<^verbatim>\<open>WebPlugin\<close> (lines 36--50).
\<close>

definition load_plugin ::
  "(string \<rightharpoonup> string) \<Rightarrow> string \<Rightarrow> filesystem \<Rightarrow> (plugin_error + web_plugin) \<times> filesystem" where
  "load_plugin environ module_file fs =
     (case import_mast_home environ of
        Inl e \<Rightarrow> (Inl e, fs)
      | Inr mast_home \<Rightarrow> WebPlugin_init mast_home module_file fs)"

inductive lifecycle :: "(string \<rightharpoonup> string) \<Rightarrow> string \<Rightarrow> filesystem \<Rightarrow> filesystem \<Rightarrow> bool"
  for environ :: "string \<rightharpoonup> string" and module_file :: string where
  installed: "lifecycle environ module_file fs fs"
| start: "lifecycle environ module_file fs0 fs \<Longrightarrow>
    lifecycle environ module_file fs0 (snd (load_plugin environ module_file fs))"
| outside_write: "lifecycle environ module_file fs0 fs \<Longrightarrow>
    Some p \<noteq> map_option config_path (environ ''MAST_HOME'') \<Longrightarrow>
    lifecycle environ module_file fs0 (fs\<lparr>files := (files fs)(p \<mapsto> content)\<rparr>)"

subsection \<open>Lemmas\<close>

lemma WebPlugin_init_existing:
  "files fs (config_path h) = Some c \<Longrightarrow> snd (WebPlugin_init h m fs) = fs"
  by (simp add: WebPlugin_init_def path_exists_def Let_def domIff)

lemma load_plugin_home:
  "environ ''MAST_HOME'' = Some h \<Longrightarrow> load_plugin environ m fs = WebPlugin_init h m fs"
  by (simp add: load_plugin_def import_mast_home_def)

text \<open>
  C21. The configuration is written at most once over the life of an installation: once
  the configuration file exists, no later start and no other write changes its contents.
\<close>

theorem lifecycle_config_stable:
  assumes "lifecycle environ m fs0 fs" and "environ ''MAST_HOME'' = Some h"
    and "files fs0 (config_path h) = Some c"
  shows "files fs (config_path h) = Some c"
  using assms
  by (induction rule: lifecycle.induct) (auto simp: WebPlugin_init_existing load_plugin_home)


text \<open>
  C22. Packaging, start-up and later administration together: on a tree installed by
  \<^verbatim>\<open>setup.py\<close>, the first start fails on the missing \<^verbatim>\<open>data/plugin.conf\<close>, and
  from then on, whatever is started or written (installing \<^verbatim>\<open>plugin.conf\<close> by hand
  included), the configuration stays the empty file.
\<close>

theorem installed_config_stays_empty:
  assumes "target \<noteq> []" and "last target \<noteq> CHR ''/''"
    and inst: "fs = install_package (setup_call r) ''mast.datapower.status'' src target fs0"
    and "files fs0 (target @ ''/data/plugin.conf'') = None"
    and "\<not> path_exists fs (config_path h)" and "config_path h \<in> writable fs"
    and "config_path h \<noteq> target @ ''/data/plugin.conf''"
    and home: "environ ''MAST_HOME'' = Some h"
    and run: "lifecycle environ (target @ ''/status.py'')
                (snd (load_plugin environ (target @ ''/status.py'') fs)) fs'"
  shows "files fs' (config_path h) = Some []"
proof -
  have "files (snd (load_plugin environ (target @ ''/status.py'') fs)) (config_path h) = Some []"
    using assms(1-7) installed_plugin_conf_missing [OF assms(1,2,4,7), of r src]
    by (simp add: load_plugin_home [of environ, OF home] WebPlugin_init_def write_file_def path_exists_def
        Let_def)
  with run show ?thesis
    by (induction rule: lifecycle.induct) (auto simp: WebPlugin_init_existing load_plugin_home [of environ, OF home] home)
qed

end
