(* ===== verification/Xor_Codec.thy ===== *)
theory Xor_Codec
  imports Collector "HOL-Library.Word"
begin

text \<open>
  The XOR obfuscation of \<^verbatim>\<open>mast.xor\<close>, which the handler imports (\<^verbatim>\<open>status.py\<close>,
  line 6) and applies to the credentials (lines 70--72): each character of the text is
  XOR-ed with the character of the key at the same position, the key repeated as often as
  needed (\<^verbatim>\<open>izip(s, cycle(key))\<close>), so an empty key gives an empty text. The library
  is outside the repository; following the spec (an XOR-obfuscated, cookie-keyed
  encoding), \<^verbatim>\<open>xordecode(s, key)\<close> is the XOR of \<open>s\<close> with \<open>key\<close> and
  \<^verbatim>\<open>xorencode(s)\<close> the XOR of \<open>s\<close> with the library's default key, a parameter. Python 2
  strings are byte strings: a character is an \<open>8 word\<close> for the XOR.
\<close>

unbundle bit_operations_syntax

definition byte_of :: "char \<Rightarrow> 8 word" where
  "byte_of c = of_char c"

definition char_of_byte :: "8 word \<Rightarrow> char" where
  "char_of_byte w = char_of (unat w)"

text \<open>\<^verbatim>\<open>chr(ord(x) ^ ord(y))\<close>\<close>

definition xor_char :: "char \<Rightarrow> char \<Rightarrow> char" where
  "xor_char x y = char_of_byte (byte_of x XOR byte_of y)"

text \<open>\<^verbatim>\<open>''.join(chr(ord(x) ^ ord(y)) for (x, y) in izip(s, cycle(key)))\<close>\<close>

definition xor_cycle :: "string \<Rightarrow> string \<Rightarrow> string" where
  "xor_cycle s key =
     (if key = [] then []
      else map (\<lambda>i. xor_char (s ! i) (key ! (i mod length key))) [0..<length s])"

text \<open>
  The library record of the handler instantiated with the codec: decoding XORs with the
  given key, encoding XORs with the default key \<open>dk\<close>.
\<close>

definition xor_lib :: "string \<Rightarrow> string \<Rightarrow> (nat \<Rightarrow> string) \<Rightarrow> mastlib" where
  "xor_lib sx dk ts =
     \<lparr>STATUS_XPATH = sx, xordecode = xor_cycle, xorencode = (\<lambda>s. xor_cycle s dk),
      Timestamp_short = ts\<rparr>"

subsection \<open>Lemmas\<close>

lemma char_of_byte_of [simp]: "char_of_byte (byte_of c) = c"
  unfolding byte_of_def char_of_byte_def
proof -
  have "(of_char c :: 8 word) = word_of_nat (of_char c)" by (simp only: of_nat_of_char)
  then have "unat (of_char c :: 8 word) = of_char c"
    using nat_of_char_less_256 [of c] by (simp add: unat_of_nat)
  then show "char_of (unat (of_char c :: 8 word)) = c" by simp
qed
lemma byte_of_char_of [simp]: "byte_of (char_of_byte w) = w"
  unfolding byte_of_def char_of_byte_def
proof -
  have "of_char (char_of (unat w)) = (of_nat (of_char (char_of (unat w) :: char) :: nat) :: 8 word)"
    by (simp only: of_nat_of_char)
  also have "\<dots> = of_nat (unat w mod 256)" by (simp only: of_char_of)
  also have "\<dots> = w" using unsigned_less [of w, where ?'a = nat] by simp
  finally show "of_char (char_of (unat w)) = w" .
qed

lemma xor_char_cancel [simp]: "xor_char (xor_char x y) y = x"
proof -
  have "(byte_of x XOR byte_of y) XOR byte_of y = byte_of x"
    by (simp add: xor.assoc)
  then show ?thesis by (simp only: xor_char_def byte_of_char_of char_of_byte_of)
qed

lemma length_xor_cycle [simp]: "length (xor_cycle s key) = (if key = [] then 0 else length s)"
  by (simp add: xor_cycle_def)

lemma xor_lib_simps [simp]:
  "xordecode (xor_lib sx dk ts) = xor_cycle"
  "xorencode (xor_lib sx dk ts) = (\<lambda>s. xor_cycle s dk)"
  "STATUS_XPATH (xor_lib sx dk ts) = sx"
  by (simp_all add: xor_lib_def)

lemma xor_cycle_Nil_key [simp]: "xor_cycle s [] = []"
  by (simp add: xor_cycle_def)

lemma xor_cycle_Nil_text [simp]: "xor_cycle [] key = []"
  by (simp add: xor_cycle_def)

lemma xor_cycle_inverse: "key \<noteq> [] \<Longrightarrow> xor_cycle (xor_cycle s key) key = s"
  by (rule nth_equalityI) (simp_all add: xor_cycle_def)

subsection \<open>Properties of the codec and of the credential decoding\<close>

text \<open>
  The credential decoding of the handler undoes the browser's encoding: when every
  credential was XOR-ed with \<^verbatim>\<open>xorencode(cookie)\<close> for a non-empty cookie and default
  key, \<^verbatim>\<open>decode_credentials\<close> returns the plain credentials, one per submitted value.
\<close>

lemma decode_credentials_xor:
  assumes "ck cookie_name = Some k" and "k \<noteq> []" and "dk \<noteq> []"
  shows "decode_credentials (xor_lib sx dk ts) ck (map (\<lambda>c. xor_cycle c (xor_cycle k dk)) creds) =
           Inr creds"
proof -
  have "xor_cycle k dk \<noteq> []" using assms(2,3) by (simp add: xor_cycle_def)
  then show ?thesis
    by (simp add: decode_credentials_cookie [of ck, OF assms(1)] comp_def xor_cycle_inverse)
qed

text \<open>
  An empty credential cookie is not an error: the key \<^verbatim>\<open>xorencode("")\<close> is empty,
  and every submitted credential decodes to the empty string.
\<close>

lemma decode_credentials_empty_cookie:
  "ck cookie_name = Some [] \<Longrightarrow>
   decode_credentials (xor_lib sx dk ts) ck cs = Inr (replicate (length cs) [])"
  by (simp add: decode_credentials_cookie map_replicate_const)

end
