(* ===== verification/Logging.thy ===== *)
theory Logging
  imports Plugin
begin

text \<open>
  The logging of \<^verbatim>\<open>status.py\<close>: the \<^verbatim>\<open>logger.debug\<close> lines of the constructor
  (lines 39, 48) and of the handler (lines 69, 79, 89--92), and the
  \<^verbatim>\<open>logger.exception\<close> of every \<^verbatim>\<open>except: ... raise\<close> block (lines 102--105 around
  the nested \<^verbatim>\<open>self.status()\<close>, lines 106--109 around \<^verbatim>\<open>get_status\<close>). A log entry
  is the message's format string with its arguments; an exception entry carries the
  exception being re-raised. The handler with its log is a copy of the model of theories
  \<open>Collector\<close> and \<open>Retry\<close> that also returns the entries it writes, in order; the
  equivalence theorem shows that logging changes neither the result nor the world.
  The \<^verbatim>\<open>@logged\<close> decorator and the logger configuration belong to
  \<^verbatim>\<open>mast.logging\<close>, outside the repository.
\<close>

datatype log_entry =
    DebugFoundMastHome string  \<comment> \<open>line 39\<close>
  | DebugCreatingConfig  \<comment> \<open>line 48\<close>
  | DebugAppliances "string list"  \<comment> \<open>line 69\<close>
  | DebugProviders "string list"  \<comment> \<open>line 79\<close>
  | DebugChecking string string  \<comment> \<open>lines 89--92: category, host name\<close>
  | ExceptionUnhandled error  \<comment> \<open>lines 103--104 and 107--108\<close>

text \<open>
  Lines 36--50 with their two debug lines: the constructor's effect is that of
  \<open>WebPlugin_init\<close>; the log names \<^verbatim>\<open>MAST_HOME\<close> and, when the configuration is
  missing, announces that it is created.
\<close>

definition WebPlugin_init_logged ::
  "string \<Rightarrow> string \<Rightarrow> filesystem \<Rightarrow> (plugin_error + web_plugin) \<times> filesystem \<times> log_entry list" where
  "WebPlugin_init_logged mast_home module_file fs =
     (case WebPlugin_init mast_home module_file fs of
        (r, fs') \<Rightarrow>
          (r, fs', DebugFoundMastHome mast_home #
                   (if path_exists fs (config_path mast_home) then [] else [DebugCreatingConfig])))"

text \<open>
  Lines 85--111 with the debug line before every query and the exception logged when
  \<^verbatim>\<open>get_status\<close> raises anything but \<^verbatim>\<open>AuthenticationFailure\<close>.
\<close>

fun collect_provider_logged ::
  "mastlib \<Rightarrow> string \<Rightarrow> string \<Rightarrow> appliance list \<Rightarrow> json list \<Rightarrow> world \<Rightarrow>
   (error + json list) \<times> world \<times> log_entry list" where
  "collect_provider_logged L provider category [] acc w = (Inr acc, w, [])"
| "collect_provider_logged L provider category (a # as) acc w =
     (let checking = DebugChecking category (hostname a);
          (r, w') = get_status a category w in
      case r of
        QAuthFailure \<Rightarrow> (Inl AuthenticationFailure, w', [checking])
      | QError m \<Rightarrow> (Inl (DeviceError m), w', [checking, ExceptionUnhandled (DeviceError m)])
      | QStatus doc \<Rightarrow>
          (case PROVIDER_MAP (STATUS_XPATH L) provider of
             None \<Rightarrow> (Inl (KeyError provider), w', [checking])
           | Some path \<Rightarrow>
               (case doc path of
                  None \<Rightarrow> (Inl AttributeError, w', [checking])
                | Some text \<Rightarrow>
                    (case collect_provider_logged L provider category as (acc @ [metric_json text]) w' of
                       (r2, w2, l2) \<Rightarrow> (r2, w2, checking # l2)))))"

fun collect_providers_logged ::
  "mastlib \<Rightarrow> string list \<Rightarrow> appliance list \<Rightarrow> response \<Rightarrow> world \<Rightarrow>
   (error + response) \<times> world \<times> log_entry list" where
  "collect_providers_logged L [] env resp w = (Inr resp, w, [])"
| "collect_providers_logged L (provider # providers) env resp w =
     (let category = provider_category provider in
      case collect_provider_logged L provider category env [] w of
        (Inl e, w', l) \<Rightarrow> (Inl e, w', l)
      | (Inr vs, w', l) \<Rightarrow>
          (case collect_providers_logged L providers env (resp(provider \<mapsto> JArr vs)) w' of
             (r2, w2, l2) \<Rightarrow> (r2, w2, l @ l2)))"

text \<open>Lines 64--112: the appliance and provider lists are logged before the loops.\<close>

definition status_attempt_logged ::
  "mastlib \<Rightarrow> request \<Rightarrow> world \<Rightarrow> (error + response) \<times> world \<times> log_entry list" where
  "status_attempt_logged L req w =
     (let t = clock w;
          appliances = form_appliances req;
          log = [DebugAppliances appliances]
      in case decode_credentials L (cookies req) (form_credentials req) of
           Inl e \<Rightarrow> (Inl e, w, log)
         | Inr credentials \<Rightarrow>
             if appliances = [] then (Inl NotFound404, w, log)
             else
               (let env = Environment appliances credentials False;
                    log = log @ [DebugProviders (form_providers req)];
                    resp = initial_response appliances (Timestamp_short L t)
                in case collect_providers_logged L (form_providers req) env resp w of
                     (r, w', l) \<Rightarrow> (r, w', log @ l)))"

text \<open>
  Lines 93--105: a restart appends the nested call's log, and when the nested call
  raises, the enclosing frame logs the exception again before re-raising it.
\<close>

partial_function (option) status_logged ::
  "mastlib \<Rightarrow> request \<Rightarrow> world \<Rightarrow> ((error + response) \<times> world \<times> log_entry list) option" where
  "status_logged L req w =
     (case status_attempt_logged L req w of
        (r, w', l) \<Rightarrow>
          if is_auth_failure r then
            Option.bind (status_logged L req (sleep 2 w'))
              (\<lambda>(r2, w2, l2). Some (r2, w2, l @ l2 @ (case r2 of Inl e \<Rightarrow> [ExceptionUnhandled e] | Inr _ \<Rightarrow> [])))
          else Some (r, w', l))"

text \<open>Reading a log: the queries announced, the exceptions logged, the attempts begun.\<close>

fun checked_entry :: "log_entry \<Rightarrow> (string \<times> string) list" where
  "checked_entry (DebugChecking c h) = [(h, c)]"
| "checked_entry _ = []"

fun exception_entry :: "log_entry \<Rightarrow> error list" where
  "exception_entry (ExceptionUnhandled e) = [e]"
| "exception_entry _ = []"

fun attempt_entry :: "log_entry \<Rightarrow> bool" where
  "attempt_entry (DebugAppliances _) = True"
| "attempt_entry _ = False"

fun raised_here :: "error \<Rightarrow> error list" where
  "raised_here (DeviceError m) = [DeviceError m]"
| "raised_here _ = []"

definition logged_run_ok ::
  "mastlib \<Rightarrow> request \<Rightarrow> world \<Rightarrow> (error + response) \<times> world \<times> log_entry list \<Rightarrow> bool" where
  "logged_run_ok L req w x =
     (case x of (r, w', l) \<Rightarrow>
        status L req w = Some (r, w') \<and> queries w' = queries w @ concat (map checked_entry l) \<and>
        0 < length (filter attempt_entry l) \<and>
        concat (map exception_entry l) =
          (case r of Inl e \<Rightarrow> raised_here e @ replicate (length (filter attempt_entry l) - 1) e
           | Inr _ \<Rightarrow> []))"

subsection \<open>Lemmas\<close>

lemma collect_provider_logged_eq:
  "collect_provider_logged L p c as acc w = (r, w', l) \<Longrightarrow>
   collect_provider L p c as acc w = (r, w') \<and> queries w' = queries w @ concat (map checked_entry l) \<and>
   concat (map exception_entry l) = (case r of Inl e \<Rightarrow> raised_here e | Inr _ \<Rightarrow> []) \<and> filter attempt_entry l = []"
proof (induction as arbitrary: acc w r w' l)
  case (Cons a as)
  then show ?case
    by (auto simp: get_status_def split: qresult.splits option.splits prod.splits)
qed auto


lemma collect_providers_logged_eq:
  "collect_providers_logged L ps env resp w = (r, w', l) \<Longrightarrow>
   collect_providers L ps env resp w = (r, w') \<and> queries w' = queries w @ concat (map checked_entry l) \<and>
   concat (map exception_entry l) = (case r of Inl e \<Rightarrow> raised_here e | Inr _ \<Rightarrow> []) \<and> filter attempt_entry l = []"
proof (induction ps arbitrary: resp w r w' l)
  case (Cons p ps)
  obtain r1 w1 l1 where
    one: "collect_provider_logged L p (provider_category p) env [] w = (r1, w1, l1)"
    by (cases "collect_provider_logged L p (provider_category p) env [] w") auto
  note IH1 = collect_provider_logged_eq [OF one]
  show ?case
  proof (cases r1)
    case (Inl e)
    with Cons.prems one IH1 show ?thesis by (auto simp del: provider_category_takeWhile)
  next
    case (Inr vs)
    obtain r2 w2 l2 where
      rest: "collect_providers_logged L ps env (resp(p \<mapsto> JArr vs)) w1 = (r2, w2, l2)"
      by (cases "collect_providers_logged L ps env (resp(p \<mapsto> JArr vs)) w1") auto
    from Cons.prems one rest Inr have "r = r2" "w' = w2" "l = l1 @ l2"
      by (simp_all del: provider_category_takeWhile)
    moreover have "collect_providers L (p # ps) env resp w =
                     collect_providers L ps env (resp(p \<mapsto> JArr vs)) w1"
      using IH1 Inr by (simp del: provider_category_takeWhile)
    ultimately show ?thesis using Cons.IH [OF rest] IH1 Inr by auto
  qed
qed auto

lemma status_attempt_logged_eq:
  "status_attempt_logged L req w = (r, w', l) \<Longrightarrow>
   status_attempt L req w = (r, w') \<and> queries w' = queries w @ concat (map checked_entry l) \<and>
   concat (map exception_entry l) = (case r of Inl e \<Rightarrow> raised_here e | Inr _ \<Rightarrow> []) \<and> length (filter attempt_entry l) = 1"
  by (auto simp: status_attempt_logged_def status_attempt_cases Let_def
      split: sum.splits if_splits prod.splits dest!: collect_providers_logged_eq decode_credentials_Inl)


lemma replicate_pred_snoc: "0 < n \<Longrightarrow> replicate (n - 1) x @ [x] = replicate n x"
  by (cases n) (simp_all add: replicate_append_same)

lemma status_logged_unfold:
  "status_logged L req w =
     (case status_attempt_logged L req w of
        (r, w', l) \<Rightarrow>
          if is_auth_failure r then
            Option.bind (status_logged L req (sleep 2 w'))
              (\<lambda>(r2, w2, l2). Some (r2, w2, l @ l2 @ (case r2 of Inl e \<Rightarrow> [ExceptionUnhandled e] | Inr _ \<Rightarrow> [])))
          else Some (r, w', l))"
  by (rule status_logged.simps)

lemma status_logged_sound:
  assumes "status_logged L req w = Some x"
  shows "logged_run_ok L req w x"
proof (rule status_logged.raw_induct [where P = logged_run_ok, OF _ assms])
  fix stat :: "mastlib \<Rightarrow> request \<Rightarrow> world \<Rightarrow> ((error + response) \<times> world \<times> log_entry list) option"
  fix L req w x
  assume IH: "\<And>L req w x. stat L req w = Some x \<Longrightarrow> logged_run_ok L req w x"
    and eq: "(case status_attempt_logged L req w of
              (r, w', l) \<Rightarrow>
                if is_auth_failure r then
                  Option.bind (stat L req (sleep 2 w'))
                    (\<lambda>(r2, w2, l2). Some (r2, w2, l @ l2 @ (case r2 of Inl e \<Rightarrow> [ExceptionUnhandled e] | Inr _ \<Rightarrow> [])))
                else Some (r, w', l)) = Some x"
  obtain r w1 l where att: "status_attempt_logged L req w = (r, w1, l)"
    by (cases "status_attempt_logged L req w") auto
  note one = status_attempt_logged_eq [OF att]
  show "logged_run_ok L req w x"
  proof (cases "is_auth_failure r")
    case False
    with eq att have "x = (r, w1, l)" by simp
    with one False show ?thesis
      by (auto simp: logged_run_ok_def status_unfold [of L req w] split: sum.splits)
  next
    case True
    then have r: "r = Inl AuthenticationFailure" by (simp add: is_auth_failure_iff)
    from eq att True obtain r2 w2 l2 where
      inner: "stat L req (sleep 2 w1) = Some (r2, w2, l2)" and
      x: "x = (r2, w2, l @ l2 @ (case r2 of Inl e \<Rightarrow> [ExceptionUnhandled e] | Inr _ \<Rightarrow> []))"
      by (auto split: Option.bind_splits)
    have rest: "status L req (sleep 2 w1) = Some (r2, w2)"
      "queries w2 = queries (sleep 2 w1) @ concat (map checked_entry l2)"
      "0 < length (filter attempt_entry l2)"
      "concat (map exception_entry l2) =
         (case r2 of Inl e \<Rightarrow> raised_here e @ replicate (length (filter attempt_entry l2) - 1) e
          | Inr _ \<Rightarrow> [])"
      using IH [OF inner] by (simp_all add: logged_run_ok_def)
    have "status L req w = status L req (sleep 2 w1)"
      using one True by (simp add: status_unfold [of L req w])
    moreover have exl: "concat (map exception_entry l) = []" using one r by simp
    ultimately show ?thesis
      using rest one x r replicate_pred_snoc [OF rest(3)]
      by (cases r2) (simp_all add: logged_run_ok_def del: concat_eq_Nil_conv)
  qed
qed

lemma status_logged_complete:
  assumes "status L req w = Some x"
  shows "\<exists>l. status_logged L req w = Some (fst x, snd x, l)"
proof (rule status.raw_induct
    [where P = "\<lambda>L req w x. \<exists>l. status_logged L req w = Some (fst x, snd x, l)", OF _ assms])
  fix stat :: "mastlib \<Rightarrow> request \<Rightarrow> world \<Rightarrow> ((error + response) \<times> world) option"
  fix L req w x
  assume IH: "\<And>L req w x. stat L req w = Some x \<Longrightarrow>
                \<exists>l. status_logged L req w = Some (fst x, snd x, l)"
    and eq: "(let (r, w') = status_attempt L req w in
              if is_auth_failure r then stat L req (sleep 2 w') else Some (r, w')) = Some x"
  obtain r w1 l where att: "status_attempt_logged L req w = (r, w1, l)"
    by (cases "status_attempt_logged L req w") auto
  have plain: "status_attempt L req w = (r, w1)" using status_attempt_logged_eq [OF att] by simp
  show "\<exists>l. status_logged L req w = Some (fst x, snd x, l)"
  proof (cases "is_auth_failure r")
    case False
    with eq plain have "x = (r, w1)" by simp
    with False att show ?thesis by (simp add: status_logged_unfold [of L req w])
  next
    case True
    with eq plain have "stat L req (sleep 2 w1) = Some x" by simp
    from IH [OF this] obtain l2 where "status_logged L req (sleep 2 w1) = Some (fst x, snd x, l2)" ..
    with True att show ?thesis by (simp add: status_logged_unfold [of L req w])
  qed
qed

text \<open>
  Logging changes nothing: the handler with its log returns exactly the result and
  the world of the handler, and returns exactly when it does.
\<close>

lemma status_logged_equiv:
  "map_option (\<lambda>(r, w', l). (r, w')) (status_logged L req w) = status L req w"
proof (cases "status_logged L req w")
  case None
  show ?thesis
  proof (cases "status L req w")
    case (Some x)
    with status_logged_complete [OF this] None show ?thesis by simp
  qed (simp add: None)
next
  case (Some x)
  with status_logged_sound [OF this] show ?thesis
    by (cases x) (simp add: logged_run_ok_def)
qed

text \<open>
  C24. The debug log announces every query: the \<^verbatim>\<open>Checking\<close> lines of a returning
  call, in order, are exactly the queries it sent, restarts included.
\<close>

theorem status_logged_queries:
  "status_logged L req w = Some (r, w', l) \<Longrightarrow>
   queries w' = queries w @ concat (map checked_entry l)"
  by (drule status_logged_sound) (simp add: logged_run_ok_def)

text \<open>
  C25. How often an error is logged: a call that answers logs no exception at all, so
  the intermittent \<^verbatim>\<open>AuthenticationFailure\<close> is never logged; a call that raises
  logs its error once for every enclosing restarted frame (one fewer than the attempts),
  and once more where it arose when it is an error of \<^verbatim>\<open>get_status\<close>.
\<close>

theorem status_logged_exceptions:
  "status_logged L req w = Some (r, w', l) \<Longrightarrow>
   concat (map exception_entry l) =
     (case r of Inl e \<Rightarrow> raised_here e @ replicate (length (filter attempt_entry l) - 1) e
      | Inr _ \<Rightarrow> [])"
  by (drule status_logged_sound) (simp add: logged_run_ok_def)

end
