(* ===== verification/Flask_Boundary.thy ===== *)
theory Flask_Boundary
  imports Retry
begin

text \<open>
  The web boundary of the handler: the constructor routes the plugin to the handler
  (\<^verbatim>\<open>self.route = self.status\<close>, \<^verbatim>\<open>status.py\<close> line 40), and Flask turns what the
  handler does into an HTTP response. A returned \<^verbatim>\<open>jsonify(resp)\<close> (line 112) is a
  JSON answer; \<^verbatim>\<open>flask.abort(404)\<close> (line 74) raises the HTTP exception 404; a missing
  cookie raises Flask's \<^verbatim>\<open>CookieKeyError\<close>, answered with 400; every other
  exception, the recursion error included, is an internal server error, 500. This
  mapping is Flask's default error handling, outside the repository, modelled from the
  spec (section 6: 404 when no appliance is given). The JSON text itself is not
  modelled: the answer carries the response map.
\<close>

datatype http_response = HttpJson response | HttpError nat

definition http_of :: "bool \<Rightarrow> error + response \<Rightarrow> http_response" where
  "http_of werkzeug1 r =
     (case r of
        Inr resp \<Rightarrow> HttpJson resp
      | Inl NotFound404 \<Rightarrow> HttpError 404
      | Inl (CookieKeyError k) \<Rightarrow> HttpError (if werkzeug1 then 400 else 500)
      | Inl e \<Rightarrow> HttpError 500)"

definition route_status ::
  "bool \<Rightarrow> mastlib \<Rightarrow> request \<Rightarrow> world \<Rightarrow> (http_response \<times> world) option" where
  "route_status werkzeug1 L req w = map_option (\<lambda>(r, w'). (http_of werkzeug1 r, w')) (status L req w)"

subsection \<open>Lemmas\<close>

lemma decode_credentials_isl:
  "isl (decode_credentials L ck cs) \<longleftrightarrow> cs \<noteq> [] \<and> ck cookie_name = None"
  by (cases cs; cases "ck cookie_name") (simp_all add: decode_credentials_cookie)

lemma http_of_loop_error:
  "collect_providers L ps env resp w = (Inl e, w') \<Longrightarrow> http_of wz (Inl e) = HttpError 500"
  by (drule collect_providers_raises) (cases e; simp add: http_of_def)

lemma status_attempt_http:
  assumes "status_attempt L req w = (r, w')"
  shows "(http_of wz r = HttpError 404 \<longleftrightarrow>
            form_appliances req = [] \<and> \<not> (form_credentials req \<noteq> [] \<and> cookies req cookie_name = None)) \<and>
         (http_of wz r = HttpError 400 \<longleftrightarrow> wz \<and> form_credentials req \<noteq> [] \<and> cookies req cookie_name = None) \<and>
         (form_credentials req \<noteq> [] \<and> cookies req cookie_name = None \<longrightarrow>
            http_of wz r = HttpError (if wz then 400 else 500))"
proof (cases "decode_credentials L (cookies req) (form_credentials req)")
  case (Inl e)
  with decode_credentials_isl [of L "cookies req" "form_credentials req"] assms show ?thesis
    by (auto simp: status_attempt_cases http_of_def dest: decode_credentials_Inl)
next
  case (Inr creds)
  with decode_credentials_isl [of L "cookies req" "form_credentials req"]
  have ok: "\<not> (form_credentials req \<noteq> [] \<and> cookies req cookie_name = None)" by simp
  show ?thesis
  proof (cases "form_appliances req = []")
    case True
    with Inr assms have "r = Inl NotFound404" by (simp add: status_attempt_cases)
    with True ok show ?thesis by (auto simp: http_of_def)
  next
    case False
    with Inr assms have run: "collect_providers L (form_providers req)
        (Environment (form_appliances req) creds False)
        (initial_response (form_appliances req) (Timestamp_short L (clock w))) w = (r, w')"
      by (simp add: status_attempt_cases)
    have "http_of wz r \<noteq> HttpError 404 \<and> http_of wz r \<noteq> HttpError 400"
      using http_of_loop_error [of L _ _ _ w _ _ wz] run by (cases r) (auto simp: http_of_def)
    with False ok show ?thesis by blast
  qed
qed

text \<open>
  C26. The HTTP status of a request the handler answers: 404 exactly when no appliance
  is named and the credentials could be decoded; credentials sent without the credential
  cookie (whether or not appliances are named) give 400 under Werkzeug 1.0 and later and
  500 before, and 400 arises in no other way; otherwise the answer is JSON or 500.
  Restarts change none of this.
\<close>

theorem route_status_codes:
  assumes "route_status wz L req w = Some (h, w')"
  shows "(h = HttpError 404 \<longleftrightarrow>
            form_appliances req = [] \<and> \<not> (form_credentials req \<noteq> [] \<and> cookies req cookie_name = None)) \<and>
         (h = HttpError 400 \<longleftrightarrow> wz \<and> form_credentials req \<noteq> [] \<and> cookies req cookie_name = None) \<and>
         (form_credentials req \<noteq> [] \<and> cookies req cookie_name = None \<longrightarrow>
            h = HttpError (if wz then 400 else 500))"
proof -
  from assms obtain r where st: "status L req w = Some (r, w')" and h: "h = http_of wz r"
    by (auto simp: route_status_def)
  from status_final_attempt [OF st] obtain w0 where "status_attempt L req w0 = (r, w')" by blast
  from status_attempt_http [OF this] h show ?thesis by simp
qed

end
