(* ===== verification/Examples.thy ===== *)
theory Examples
  imports Lifecycle Xor_Codec Logging Flask_Boundary
begin

text \<open>
  Concrete inputs on which the properties of the development are instantiated: a
  \<^verbatim>\<open>mast\<close> library (\<open>ex_lib\<close>, and \<open>ex_clock_lib\<close> whose timestamps tell the
  invocation from a later attempt), a request for two appliances, devices that answer,
  fail authentication once (\<open>ex_flaky\<close>) or always raise (\<open>ex_failing\<close>), and the file
  systems of an installation before and after the plugin starts.
\<close>

definition ex_lib :: mastlib where
  "ex_lib = \<lparr>STATUS_XPATH = ''/status'', xordecode = (\<lambda>s k. s), xorencode = (\<lambda>s. s),
             Timestamp_short = (\<lambda>n. ''T'')\<rparr>"

definition ex_req :: request where
  "ex_req = \<lparr>form_appliances = [''dp1'', ''dp2''], form_credentials = [''u1'', ''u2''],
             form_providers = [''MemoryStatus.Usage''], cookies = [cookie_name \<mapsto> ''key'']\<rparr>"

definition ex_doc :: status_doc where
  "ex_doc = [''/status/MemoryStatus/Usage'' \<mapsto> Some ''42'']"

definition ex_world :: "device \<Rightarrow> world" where
  "ex_world d = \<lparr>clock = 100, queries = [], device = d\<rparr>"

definition ex_flaky :: device where
  "ex_flaky = (\<lambda>i. if i = 0 then (\<lambda>a c. QAuthFailure) else (\<lambda>a c. QStatus ex_doc))"

definition ex_response :: response where
  "ex_response = (initial_response [''dp1'', ''dp2''] ''T'')
                   (''MemoryStatus.Usage'' \<mapsto> JArr [JStr ''42'', JStr ''42''])"

definition ex_fs :: filesystem where
  "ex_fs = \<lparr>files = [''/pkg/data/plugin.conf'' \<mapsto> ''[status]''], dirs = {''/mast''},
            writable = {''/mast/etc/default/status.conf''}\<rparr>"

definition ex_fs_started :: filesystem where
  "ex_fs_started = ex_fs\<lparr>files := (files ex_fs)(''/mast/etc/default/status.conf'' \<mapsto> ''[status]'')\<rparr>"

definition ex_target :: string where "ex_target = ''/site/mast/datapower/status''"
definition ex_src :: "string \<rightharpoonup> string" where
  "ex_src = [''status.py'' \<mapsto> ''code'', ''data/plugin.conf'' \<mapsto> ''[status]'', ''docroot/index.html'' \<mapsto> ''page'']"
definition ex_fs0 :: filesystem where
  "ex_fs0 = \<lparr>files = Map.empty, dirs = {''/mast''}, writable = {''/mast/etc/default/status.conf''}\<rparr>"
definition ex_installed :: filesystem where
  "ex_installed = install_package (setup_call ''readme'') ''mast.datapower.status'' ex_src ex_target ex_fs0"

definition ex_xor_lib :: mastlib where
  "ex_xor_lib = xor_lib ''/status'' ''_'' (\<lambda>n. ''T'')"

definition ex_environ :: "string \<rightharpoonup> string" where
  "ex_environ = [''MAST_HOME'' \<mapsto> ''/mast'']"

definition ex_after_first_start :: filesystem where
  "ex_after_first_start = snd (load_plugin ex_environ (ex_target @ ''/status.py'') ex_installed)"

definition ex_after_manual_fix :: filesystem where
  "ex_after_manual_fix =
     snd (load_plugin ex_environ (ex_target @ ''/status.py'')
       (ex_after_first_start\<lparr>files := (files ex_after_first_start)
          (ex_target @ ''/data/plugin.conf'' \<mapsto> ''[status]'')\<rparr>))"

definition ex_restarted :: filesystem where
  "ex_restarted =
     snd (load_plugin ex_environ ''/pkg/status.py''
       (ex_fs_started\<lparr>files := (files ex_fs_started)(''/pkg/data/plugin.conf'' \<mapsto> ''[new]'')\<rparr>))"

definition ex_failing_log :: "log_entry list" where
  "ex_failing_log =
     [DebugAppliances [''dp1'', ''dp2''], DebugProviders [''MemoryStatus.Usage''],
      DebugChecking ''MemoryStatus'' ''dp1'',
      DebugAppliances [''dp1'', ''dp2''], DebugProviders [''MemoryStatus.Usage''],
      DebugChecking ''MemoryStatus'' ''dp1'', ExceptionUnhandled (DeviceError ''boom''),
      ExceptionUnhandled (DeviceError ''boom'')]"

definition ex_failing :: device where
  "ex_failing = (\<lambda>i. if i = 0 then (\<lambda>a c. QAuthFailure) else (\<lambda>a c. QError ''boom''))"

definition ex_clock_lib :: mastlib where
  "ex_clock_lib = ex_lib\<lparr>Timestamp_short := (\<lambda>n. if n = 100 then ''start'' else ''later'')\<rparr>"

definition ex_strict :: device where
  "ex_strict = (\<lambda>i a c.
     if a = \<lparr>hostname = ''dp1'', credential = ''u1'', check_hostname = False\<rparr> \<or>
        a = \<lparr>hostname = ''dp2'', credential = ''u2'', check_hostname = False\<rparr>
     then QStatus ex_doc else QAuthFailure)"

end
