(* ===== verification/Spec2Isabelle.thy ===== *)
theory Spec2Isabelle
  imports Examples
begin

text \<open>
  \<^bold>\<open>A verification model of the DataPower status plugin.\<close>

  The repository is a plugin of the MAST web console
  (\<^verbatim>\<open>src/mast/datapower/status/status.py\<close>, packaged by \<^verbatim>\<open>src/setup.py\<close>). Its one
  request handler, \<^verbatim>\<open>WebPlugin.status\<close>, decodes the credentials the browser sends,
  queries every named appliance for the status category of every requested metric,
  extracts each metric's value from the returned document with the static table
  \<^verbatim>\<open>PROVIDER_MAP\<close>, and answers with a JSON map from metric names to one value per
  appliance. When an appliance raises \<^verbatim>\<open>AuthenticationFailure\<close> the handler sleeps
  two seconds and calls itself again. The constructor \<^verbatim>\<open>WebPlugin.__init__\<close> writes
  a default configuration file on first start, and three methods serve static files; all
  of them read the package's \<^verbatim>\<open>data\<close> directory, which \<^verbatim>\<open>setup.py\<close> decides
  whether to install.

  \<^bold>\<open>Theories and what they model.\<close>
  \<^item> \<open>Status_Prelude\<close>: JSON values and the response map; Python's
    \<^verbatim>\<open>str.split\<close> (\<open>py_split\<close>, characterised through its inverse \<open>py_join\<close>,
    a proof device that models no line of the code), \<^verbatim>\<open>os.path.join\<close>
    (\<open>path_join\<close>) and \<^verbatim>\<open>os.path.dirname\<close> (\<open>py_dirname\<close>); \<open>traverse_sum\<close>, a
    fallible map that stops at the first error; the collections \<open>world_frame\<close> and
    \<open>pystr_simps\<close>.
  \<^item> \<open>Provider_Map\<close>: \<^verbatim>\<open>PROVIDER_MAP\<close> (lines 9--18) as \<open>PROVIDER_TABLE\<close>/\<open>PROVIDER_MAP\<close>
    over an arbitrary \<^verbatim>\<open>STATUS_XPATH\<close>, and \<open>provider_category\<close> (line 86).
  \<^item> \<open>Appliance\<close>: the interface to the libraries outside the repository, modelled from
    the spec and from how the handler calls them. The outside world is the record
    \<open>world\<close>: a clock, the log of status queries sent, and a device oracle answering a
    query from its position in the log, the appliance and the category, so that an
    intermittent failure is an answer that depends on when the query is sent.
    \<open>get_status\<close> appends to the log, \<open>sleep\<close> advances the clock, \<open>Environment\<close> pairs
    host names with credentials by position. The pure library functions imported at
    lines 5--7 (XOR codec, \<^verbatim>\<open>Timestamp.short\<close>, \<^verbatim>\<open>STATUS_XPATH\<close>) are fields of the
    parameter record \<open>mastlib\<close>.
  \<^item> \<open>Collector\<close>: one attempt of the handler body (lines 64--112) as
    \<open>status_attempt\<close>, with \<open>decode_credentials\<close> (lines 70--72), the outer loop over
    providers \<open>collect_providers\<close> and the inner loop over appliances
    \<open>collect_provider\<close> (lines 85--111). Every exception is a constructor of \<open>error\<close>;
    an attempt returns \<open>error + response\<close> and the world after its queries.
  \<^item> \<open>Xor_Codec\<close>: the XOR obfuscation of \<^verbatim>\<open>mast.xor\<close> (outside the repository,
    modelled from the spec) on \<open>8 word\<close> bytes with a cycled key, and the library record
    \<open>xor_lib\<close> it instantiates, so that the credential decoding can be run end to end.
  \<^item> \<open>Collect_Spec\<close>: the abstract specification \<open>attempt_spec\<close> of one attempt for
    appliances whose answers do not depend on time (each metric/appliance cell fetched
    independently, the first failing cell in provider-major order is the error), and the
    refinement lemmas from the loops to it.
  \<^item> \<open>Retry\<close>: the handler itself, \<open>status\<close>, as \<^theory_text>\<open>partial_function (option)\<close>:
    on \<^verbatim>\<open>AuthenticationFailure\<close> it sleeps two seconds and runs again (lines 93--105);
    \<open>None\<close> is a handler that never returns. \<open>status_fuel\<close> counts the attempts and
    \<open>status_big\<close> is the inductive big-step semantics (answer, or sleep and run again);
    the three agree (the lemmas \<open>status_fuel_equiv\<close>, \<open>status_big_iff\<close>). No bound on the
    restarts is assumed: the liveness theorem takes the position of the last
    authentication failure as its bound, and the fuel it needs is stated.
    \<open>status_rec\<close> is the handler as the interpreter runs it, under a recursion limit
    of \<open>d\<close> nested calls, past which the nested \<^verbatim>\<open>self.status()\<close> raises
    \<^verbatim>\<open>RuntimeError\<close> (\<open>RecursionLimit\<close>).
  \<^item> \<open>Plugin\<close>: \<^verbatim>\<open>MAST_HOME\<close> (line 20), \<open>get_data_file\<close> (lines 23--28),
    \<open>WebPlugin_init\<close> (lines 36--50) and \<open>css\<close>, \<open>js\<close>, \<open>html\<close> (lines 54--61) over a
    file-system record of files, directories and writable paths.
  \<^item> \<open>Setup\<close>: \<^verbatim>\<open>setup.py\<close>: \<open>read\<close> (lines 9--10), the arguments of \<^verbatim>\<open>setup\<close>
    (\<open>setup_args\<close>, \<open>setup_call\<close>, lines 12--37), the script run \<open>setup_py\<close>, and
    what setuptools' \<^verbatim>\<open>build_py\<close> installs from \<^verbatim>\<open>packages\<close> and
    \<^verbatim>\<open>package_data\<close> with \<^verbatim>\<open>glob\<close> semantics (\<open>glob_match\<close>, \<open>build_selects\<close>,
    \<open>install_package\<close>); installation meets the start-up of \<open>Plugin\<close>.
  \<^item> \<open>Lifecycle\<close>: \<open>load_plugin\<close>, a start of the console process (the import reads
    \<^verbatim>\<open>MAST_HOME\<close>, line 20, then \<^verbatim>\<open>WebPlugin\<close> is constructed), and the inductive
    relation \<open>lifecycle\<close> of the file systems an installation goes through: a start
    loads the plugin again whatever the previous outcome, and outside writes change any
    file but the configuration.
  \<^item> \<open>Logging\<close>: every \<^verbatim>\<open>logger.debug\<close> and \<^verbatim>\<open>logger.exception\<close> call as a
    \<open>log_entry\<close>; the constructor (\<open>WebPlugin_init_logged\<close>) and a copy of the handler
    (\<open>collect_provider_logged\<close>, \<open>collect_providers_logged\<close>,
    \<open>status_attempt_logged\<close>, \<open>status_logged\<close>) that also return the entries they
    write, in order.
  \<^item> \<open>Flask_Boundary\<close>: the route \<open>route_status\<close> (\<^verbatim>\<open>self.route = self.status\<close>,
    line 40) and the HTTP outcome \<open>http_of\<close> that Flask's default error handling gives
    each result (JSON, 404, 400 or 500), modelled from the spec. The status of a missing
    cookie depends on the Werkzeug release, which the repository does not pin, so the
    mapping takes it as a flag.
  \<^item> \<open>Examples\<close>: the concrete inputs (library, request, devices, file systems) the
    witnesses instantiate the properties at.
  \<^item> This theory: the properties of the whole handler, and the witnesses.

  \<^bold>\<open>What is proved.\<close>
  The response of a returning handler has one value per appliance for every requested
  metric and only known metrics (\<open>status_success_shape\<close>), and exactly the keys
  \<^verbatim>\<open>appliances\<close>, \<^verbatim>\<open>time\<close> and the metric names (\<open>status_response_keys\<close>); for time-independent
  appliances the handler computes exactly \<open>attempt_spec\<close> (\<open>status_refines_spec\<close>);
  every successful attempt sends one query per metric and appliance, in order, with no
  batching (\<open>Collector.status_attempt_queries\<close>); the error paths: 404 with no query
  (\<open>status_no_appliances\<close>), the missing credential cookie before anything else
  (\<open>status_missing_cookie\<close>), an unknown metric noticed only after one query
  (\<open>status_unknown_metric\<close>). For the retry: \<^verbatim>\<open>AuthenticationFailure\<close> never escapes
  (\<open>Retry.status_never_auth\<close>); a single intermittent failure costs exactly one retry
  (\<open>Retry.status_retry_once\<close>); the \<^verbatim>\<open>time\<close> of an answer is that of its last attempt,
  \<open>2 n\<close> seconds after the invocation for \<open>n\<close> restarts (\<open>status_time_last_attempt\<close>); the handler returns once failures stop, within a stated
  number of attempts (\<open>Retry.status_terminates\<close>), and never returns if they do not
  (\<open>Retry.status_auth_forever\<close>), where the spec asks for one retry; a returning call
  slept two seconds per restart and only appended to the log (\<open>Retry.status_world\<close>).
  Under a recursion limit of \<open>n\<close> nested calls, with appliances that always fail
  authentication, the handler makes exactly \<open>n\<close> one-query attempts and sleeps \<open>2 n\<close>
  seconds before the recursion error (\<open>Retry.status_rec_all_auth\<close>); the lemma
  \<open>Retry.status_rec_fuel\<close> relates it to the counted attempts. Every appliance is
  contacted only with the credential submitted at its position, decoded with the key
  \<^verbatim>\<open>xorencode\<close> of the cookie, and with host-name checking off: devices that agree
  on these handles give the same run (\<open>Retry.status_credentials_paired\<close>). An empty
  credential cookie yields empty credentials, so with appliances that reject an empty
  password the handler restarts forever (\<open>empty_cookie_never_returns\<close>).
  For the table, every entry is \<open>Category.Field\<close> located under the status root
  (\<open>Provider_Map.provider_path_shape\<close>); for the start-up, the default configuration is
  written once and never overwritten, but a start that fails on a missing
  \<^verbatim>\<open>plugin.conf\<close> leaves an empty configuration that no later start replaces, since
  the file is opened for writing before the data file is read (\<open>Plugin\<close>). For the
  packaging, \<^verbatim>\<open>setup.py\<close> installs exactly the top-level modules and the files under
  \<^verbatim>\<open>docroot\<close> (\<open>Setup.setup_installs\<close>), none of \<^verbatim>\<open>data\<close>, so on an installed
  tree the first start fails on \<^verbatim>\<open>data/plugin.conf\<close> and leaves the empty
  configuration, whatever the source tree holds (\<open>Setup.installed_plugin_start_fails\<close>).
  Over the life of an installation, by rule induction on \<open>lifecycle\<close>, an existing
  configuration never changes (\<open>Lifecycle.lifecycle_config_stable\<close>), so on an installed
  tree the configuration stays empty for good, even after \<^verbatim>\<open>plugin.conf\<close> is
  installed by hand (\<open>Lifecycle.installed_config_stays_empty\<close>).
  For the logging, the logged handler computes exactly what the handler computes (the
  lemma \<open>Logging.status_logged_equiv\<close>, in both directions by fixpoint induction); its
  \<^verbatim>\<open>Checking\<close> lines are exactly the queries sent (\<open>Logging.status_logged_queries\<close>);
  an answered request logs no exception, so the intermittent authentication failure is
  never logged, while an error is logged once per restarted frame and once more at its
  source when \<^verbatim>\<open>get_status\<close> raised it (\<open>Logging.status_logged_exceptions\<close>).
  At the HTTP boundary, 404 is answered exactly when no appliance is named and the
  credentials decode; credentials without the cookie get 400 from Werkzeug 1.0 on and
  500 before it (\<open>Flask_Boundary.route_status_codes\<close>).

  \<^bold>\<open>Bounds and fuel.\<close> There is no fuel in the handler's definition: \<open>status\<close> is a
  partial function whose \<open>None\<close> is non-termination. The fuel model is only a proof
  device and a measure: \<open>k - |log| + 1\<close> attempts suffice when no query from log position
  \<open>k\<close> on fails authentication, because every failing attempt sends at least one query
  and its last query is the failing one (\<open>Collector.status_attempt_auth\<close>). The
  recursion limit of \<open>status_rec\<close> is a parameter: CPython's default limit is 1000
  frames, but how many frames one restart takes (the handler, the \<^verbatim>\<open>@logged\<close>
  wrapper, the framework's dispatch) is not fixed by the repository, so every theorem
  holds for every depth. The clock advances only by \<^verbatim>\<open>sleep\<close>: queries take no
  time in the model, so the durations stated (\<open>2 n\<close> seconds for \<open>n\<close> restarts) are
  the sleeping time, a lower bound on the real elapsed time.

  \<^bold>\<open>Not modelled.\<close> The web framework beyond the request record, the route and the
  HTTP status of each outcome: \<^verbatim>\<open>jsonify\<close>'s text serialisation (the answer carries
  the response map) and Flask's URL dispatch; the XML
  parsing, network and authentication of \<^verbatim>\<open>mast.datapower\<close> beyond the device oracle;
  any transport encoding \<^verbatim>\<open>mast.xor\<close> may layer over the XOR; the
  \<^verbatim>\<open>@logged\<close> decorator and the logger configuration of \<^verbatim>\<open>mast.logging\<close> (the
  log entries themselves are modelled, their text rendering is not); the Python 2
  bytes/text distinction of the data files; glob bracket classes, which no pattern
  uses; the plugin loader that resolves the \<^verbatim>\<open>mast_web_plugin\<close> entry point, which
  is outside the repository.
\<close>

section \<open>Properties of the whole handler\<close>

text \<open>
  What a returning handler did, for one credential per appliance: its last attempt ran
  the provider loop over a non-empty environment of one appliance per name, every
  requested metric is a \<^verbatim>\<open>PROVIDER_MAP\<close> key, and so neither
  \<^verbatim>\<open>"appliances"\<close> nor \<^verbatim>\<open>"time"\<close> was requested.
\<close>

lemma status_answer:
  assumes ok: "status L req w = Some (Inr resp, w')"
    and creds: "length (form_credentials req) = length (form_appliances req)"
  obtains w0 env where
    "collect_providers L (form_providers req) env
       (initial_response (form_appliances req) (Timestamp_short L (clock w0))) w0 = (Inr resp, w')"
    "length env = length (form_appliances req)"
    "set (form_providers req) \<subseteq> dom (PROVIDER_MAP (STATUS_XPATH L))"
    "''appliances'' \<notin> set (form_providers req)" "''time'' \<notin> set (form_providers req)"
proof -
  from status_final_attempt [OF ok] obtain w0 where att: "status_attempt L req w0 = (Inr resp, w')"
    by blast
  then obtain cs where
    dec: "decode_credentials L (cookies req) (form_credentials req) = Inr cs" and
    apps: "form_appliances req \<noteq> []" and
    run: "collect_providers L (form_providers req) (Environment (form_appliances req) cs False)
            (initial_response (form_appliances req) (Timestamp_short L (clock w0))) w0 = (Inr resp, w')"
    by (rule status_attempt_Inr)
  have len: "length (Environment (form_appliances req) cs False) = length (form_appliances req)"
    using decode_credentials_Inr [OF dec] creds by simp
  with apps have "Environment (form_appliances req) cs False \<noteq> []"
    by (metis length_0_conv)
  from collect_providers_known [OF run this]
  have known: "set (form_providers req) \<subseteq> dom (PROVIDER_MAP (STATUS_XPATH L))" .
  then have "''appliances'' \<notin> set (form_providers req)" "''time'' \<notin> set (form_providers req)"
    using not_provider_keys [of "STATUS_XPATH L"] by blast+
  with that [OF run len known] show ?thesis by blast
qed

text \<open>
  C1. When the handler answers, the response holds, for every requested metric, one value
  per appliance (given one credential per appliance), the submitted appliance names
  under \<^verbatim>\<open>"appliances"\<close>, a timestamp under \<^verbatim>\<open>"time"\<close>, and every requested
  metric is one of \<^verbatim>\<open>PROVIDER_MAP\<close>.
\<close>

theorem status_success_shape:
  assumes ok: "status L req w = Some (Inr resp, w')"
    and creds: "length (form_credentials req) = length (form_appliances req)"
  shows "(\<forall>p \<in> set (form_providers req).
            \<exists>vs. resp p = Some (JArr vs) \<and> length vs = length (form_appliances req)) \<and>
         resp ''appliances'' = Some (JArr (map JStr (form_appliances req))) \<and>
         (\<exists>t. resp ''time'' = Some (JStr t)) \<and>
         set (form_providers req) \<subseteq> dom (PROVIDER_MAP (STATUS_XPATH L))"
proof -
  obtain w0 env where
    run: "collect_providers L (form_providers req) env
            (initial_response (form_appliances req) (Timestamp_short L (clock w0))) w0 = (Inr resp, w')"
    and len: "length env = length (form_appliances req)"
    and known: "set (form_providers req) \<subseteq> dom (PROVIDER_MAP (STATUS_XPATH L))"
    and keys: "''appliances'' \<notin> set (form_providers req)" "''time'' \<notin> set (form_providers req)"
    using status_answer [OF ok creds] by blast
  with collect_providers_shape [OF run] show ?thesis
    by (simp add: initial_response_def)
qed

lemma ex_status_ok:
  "status ex_lib ex_req (ex_world (\<lambda>i a c. QStatus ex_doc)) =
   Some (Inr ex_response,
         (ex_world (\<lambda>i a c. QStatus ex_doc))\<lparr>queries := [(''dp1'', ''MemoryStatus''), (''dp2'', ''MemoryStatus'')]\<rparr>)"
  by (subst status_unfold) (simp add: status_attempt_cases ex_lib_def ex_req_def
      ex_world_def ex_doc_def ex_response_def Environment_def get_status_def PROVIDER_MAP_def
      PROVIDER_TABLE_def metric_json_def cookie_name_def Let_def)


theorem status_success_shape_witness:
  "status ex_lib ex_req (ex_world (\<lambda>i a c. QStatus ex_doc)) =
     Some (Inr ex_response,
           (ex_world (\<lambda>i a c. QStatus ex_doc))\<lparr>queries := [(''dp1'', ''MemoryStatus''), (''dp2'', ''MemoryStatus'')]\<rparr>) \<and>
   length (form_credentials ex_req) = length (form_appliances ex_req) \<and>
   ex_response ''MemoryStatus.Usage'' = Some (JArr [JStr ''42'', JStr ''42'']) \<and>
   ex_response ''appliances'' = Some (JArr (map JStr (form_appliances ex_req)))"
  using ex_status_ok status_success_shape [OF ex_status_ok]
  by (simp add: ex_req_def ex_response_def)

text \<open>
  C17. The response of a returning handler has exactly the keys
  \<^verbatim>\<open>"appliances"\<close>, \<^verbatim>\<open>"time"\<close> and the requested metric names.
\<close>

theorem status_response_keys:
  assumes "status L req w = Some (Inr resp, w')"
  shows "dom resp = {''appliances'', ''time''} \<union> set (form_providers req)"
proof -
  from status_final_attempt [OF assms] obtain w0 where att: "status_attempt L req w0 = (Inr resp, w')"
    by blast
  then obtain cs where
    run: "collect_providers L (form_providers req) (Environment (form_appliances req) cs False)
            (initial_response (form_appliances req) (Timestamp_short L (clock w0))) w0 = (Inr resp, w')"
    by (rule status_attempt_Inr)
  from collect_providers_shape [OF run] show ?thesis
    by (auto simp: initial_response_def split: if_splits)
qed

theorem status_response_keys_witness:
  "status ex_lib ex_req (ex_world (\<lambda>i a c. QStatus ex_doc)) =
     Some (Inr ex_response,
           (ex_world (\<lambda>i a c. QStatus ex_doc))\<lparr>queries := [(''dp1'', ''MemoryStatus''), (''dp2'', ''MemoryStatus'')]\<rparr>) \<and>
   dom ex_response = {''appliances'', ''time'', ''MemoryStatus.Usage''}"
  using ex_status_ok status_response_keys [OF ex_status_ok] by (simp add: ex_req_def insert_commute)

text \<open>
  C2. Refinement: when the appliances answer without depending on time and never with an
  authentication failure, the handler returns in one attempt exactly the result of the
  abstract specification \<open>attempt_spec\<close> (each cell fetched independently, first error in
  provider-major order, later duplicates overriding earlier ones).
\<close>

theorem status_refines_spec:
  assumes "answers_from w D" and "\<forall>a c. D a c \<noteq> QAuthFailure"
  shows "\<exists>w'. status L req w = Some (attempt_spec L D req (clock w), w')"
proof -
  obtain w' where att: "status_attempt L req w = (attempt_spec L D req (clock w), w')"
    using status_attempt_refines [OF assms(1), of L req] by (cases "status_attempt L req w") simp
  with attempt_spec_no_auth [OF assms(2)] show ?thesis
    by (simp add: status_unfold [of L req w])
qed

theorem status_refines_spec_witness:
  "device (ex_world (\<lambda>i a c. QStatus ex_doc)) = (\<lambda>i. \<lambda>a c. QStatus ex_doc) \<and>
   QStatus ex_doc \<noteq> QAuthFailure \<and>
   (\<exists>w'. status ex_lib ex_req (ex_world (\<lambda>i a c. QStatus ex_doc)) =
           Some (attempt_spec ex_lib (\<lambda>a c. QStatus ex_doc) ex_req 100, w'))"
  using status_refines_spec [of "ex_world (\<lambda>i a c. QStatus ex_doc)" "\<lambda>a c. QStatus ex_doc" ex_lib ex_req]
  by (simp add: ex_world_def)

text \<open>
  C7. No appliance named: once the credentials decode, the handler answers 404 and has sent
  no query and slept no time (the world is unchanged).
\<close>

theorem status_no_appliances:
  assumes "form_appliances req = []"
    and "form_credentials req = [] \<or> cookies req cookie_name \<noteq> None"
  shows "status L req w = Some (Inl NotFound404, w)"
proof -
  obtain ds where "decode_credentials L (cookies req) (form_credentials req) = Inr ds"
    using decode_credentials_ok [of "form_credentials req" "cookies req", OF assms(2)] by blast
  with assms(1) show ?thesis
    by (simp add: status_unfold [of L req w] status_attempt_cases)
qed

theorem status_no_appliances_witness:
  "form_appliances (ex_req\<lparr>form_appliances := []\<rparr>) = [] \<and>
   (form_credentials (ex_req\<lparr>form_appliances := []\<rparr>) = [] \<or>
    cookies (ex_req\<lparr>form_appliances := []\<rparr>) cookie_name \<noteq> None) \<and>
   status ex_lib (ex_req\<lparr>form_appliances := []\<rparr>) (ex_world (\<lambda>i a c. QStatus ex_doc)) =
     Some (Inl NotFound404, ex_world (\<lambda>i a c. QStatus ex_doc))"
  using status_no_appliances [of "ex_req\<lparr>form_appliances := []\<rparr>" ex_lib "ex_world (\<lambda>i a c. QStatus ex_doc)"]
  by (simp add: ex_req_def)

text \<open>
  C10. A credential without the key cookie is rejected before anything else, even before
  the 404 for an empty appliance list, and no query is sent.
\<close>

theorem status_missing_cookie:
  assumes "form_credentials req \<noteq> []" and "cookies req cookie_name = None"
  shows "status L req w = Some (Inl (CookieKeyError cookie_name), w)"
proof -
  from assms obtain c cs where "form_credentials req = c # cs" "cookies req cookie_name = None"
    by (cases "form_credentials req") auto
  then show ?thesis
    by (simp add: status_unfold [of L req w] status_attempt_cases)
qed

theorem status_missing_cookie_witness:
  "form_credentials (ex_req\<lparr>form_appliances := [], cookies := Map.empty\<rparr>) \<noteq> [] \<and>
   cookies (ex_req\<lparr>form_appliances := [], cookies := Map.empty\<rparr>) cookie_name = None \<and>
   status ex_lib (ex_req\<lparr>form_appliances := [], cookies := Map.empty\<rparr>) (ex_world (\<lambda>i a c. QStatus ex_doc)) =
     Some (Inl (CookieKeyError cookie_name), ex_world (\<lambda>i a c. QStatus ex_doc))"
  using status_missing_cookie [of "ex_req\<lparr>form_appliances := [], cookies := Map.empty\<rparr>"]
  by (simp add: ex_req_def)


text \<open>
  C8. An unknown metric is only noticed after the first appliance has been queried for its
  category: the handler fails with \<^verbatim>\<open>KeyError\<close> having sent exactly one query, where
  the spec asks for validation before any I/O.
\<close>

theorem status_unknown_metric:
  assumes apps: "form_appliances req = h # hs" and provs: "form_providers req = p # ps"
    and unknown: "p \<notin> dom (PROVIDER_MAP (STATUS_XPATH L))"
    and cookie: "cookies req cookie_name \<noteq> None"
    and creds: "length (form_credentials req) = length (form_appliances req)"
    and answer: "\<forall>a c. device w (length (queries w)) a c = QStatus doc"
  shows "status L req w =
           Some (Inl (KeyError p), w\<lparr>queries := queries w @ [(h, provider_category p)]\<rparr>)"
proof -
  from cookie obtain k where k: "cookies req cookie_name = Some k" by blast
  from creds apps obtain c cs where cs: "form_credentials req = c # cs"
    by (cases "form_credentials req") auto
  show ?thesis
    using apps provs unknown answer
    by (simp add: status_unfold [of L req w] status_attempt_cases cs k
        decode_credentials_cookie [of "cookies req", OF k] Environment_def get_status_def Let_def domIff
        del: provider_category_takeWhile)
qed

theorem status_unknown_metric_witness:
  "form_appliances (ex_req\<lparr>form_providers := [''Bogus.Field'']\<rparr>) = ''dp1'' # [''dp2''] \<and>
   form_providers (ex_req\<lparr>form_providers := [''Bogus.Field'']\<rparr>) = ''Bogus.Field'' # [] \<and>
   ''Bogus.Field'' \<notin> dom (PROVIDER_MAP (STATUS_XPATH ex_lib)) \<and>
   status ex_lib (ex_req\<lparr>form_providers := [''Bogus.Field'']\<rparr>) (ex_world (\<lambda>i a c. QStatus ex_doc)) =
     Some (Inl (KeyError ''Bogus.Field''),
           (ex_world (\<lambda>i a c. QStatus ex_doc))\<lparr>queries := [(''dp1'', ''Bogus'')]\<rparr>)"
proof -
  have "''Bogus.Field'' \<notin> dom (PROVIDER_MAP (STATUS_XPATH ex_lib))"
    by (simp add: PROVIDER_MAP_def PROVIDER_TABLE_def)
  from status_unknown_metric [of "ex_req\<lparr>form_providers := [''Bogus.Field'']\<rparr>" "''dp1''" "[''dp2'']"
      "''Bogus.Field''" "[]" ex_lib "ex_world (\<lambda>i a c. QStatus ex_doc)" ex_doc, OF _ _ this]
  show ?thesis
    by (simp add: ex_req_def ex_world_def cookie_name_def PROVIDER_MAP_def PROVIDER_TABLE_def)
qed

section \<open>Witnesses of the retry and query properties\<close>

text \<open>
  The worlds below differ only in how the appliances answer: always with an
  authentication failure, with one failure and then the example document, or always with
  the document.
\<close>

lemma ex_attempt_ok:
  "status_attempt ex_lib ex_req (ex_world (\<lambda>i a c. QStatus ex_doc)) =
   (Inr ex_response,
    (ex_world (\<lambda>i a c. QStatus ex_doc))\<lparr>queries := [(''dp1'', ''MemoryStatus''), (''dp2'', ''MemoryStatus'')]\<rparr>)"
  by (simp add: status_attempt_cases ex_lib_def ex_req_def ex_world_def ex_doc_def
      ex_response_def Environment_def get_status_def PROVIDER_MAP_def PROVIDER_TABLE_def
      metric_json_def cookie_name_def Let_def)

theorem status_auth_forever_witness:
  "(\<forall>i a c. device (ex_world (\<lambda>i a c. QAuthFailure)) i a c = QAuthFailure) \<and>
   form_appliances ex_req \<noteq> [] \<and> form_providers ex_req \<noteq> [] \<and>
   cookies ex_req cookie_name \<noteq> None \<and>
   length (form_credentials ex_req) = length (form_appliances ex_req) \<and>
   status ex_lib ex_req (ex_world (\<lambda>i a c. QAuthFailure)) = None"
  using status_auth_forever [of "ex_world (\<lambda>i a c. QAuthFailure)" ex_req ex_lib]
  by (simp add: ex_req_def ex_world_def)

theorem status_terminates_witness:
  "device (ex_world ex_flaky) 0 = (\<lambda>a c. QAuthFailure) \<and>
   device (ex_world ex_flaky) 1 = (\<lambda>a c. QStatus ex_doc) \<and>
   (\<exists>x. status ex_lib ex_req (ex_world ex_flaky) = Some x \<and>
        status_fuel 2 ex_lib ex_req (ex_world ex_flaky) = Some x)"
  using status_terminates [of 1 "ex_world ex_flaky" ex_lib ex_req]
  by (simp add: ex_world_def ex_flaky_def numeral_2_eq_2)

theorem status_retry_once_witness:
  "device (ex_world ex_flaky) =
     (\<lambda>i. if i = length (queries (ex_world ex_flaky))
          then (\<lambda>a c. QAuthFailure) else (\<lambda>a c. QStatus ex_doc)) \<and>
   (\<forall>a c. QStatus ex_doc \<noteq> QAuthFailure) \<and>
   form_appliances ex_req \<noteq> [] \<and> form_providers ex_req \<noteq> [] \<and>
   cookies ex_req cookie_name \<noteq> None \<and>
   length (form_credentials ex_req) = length (form_appliances ex_req) \<and>
   status_fuel 1 ex_lib ex_req (ex_world ex_flaky) = None \<and>
   (\<exists>w'. status ex_lib ex_req (ex_world ex_flaky) =
           Some (attempt_spec ex_lib (\<lambda>a c. QStatus ex_doc) ex_req (clock (ex_world ex_flaky) + 2), w'))"
proof -
  have dev: "device (ex_world ex_flaky) =
     (\<lambda>i. if i = length (queries (ex_world ex_flaky))
          then (\<lambda>a c. QAuthFailure) else (\<lambda>a c. QStatus ex_doc))"
    by (simp add: ex_world_def ex_flaky_def)
  have D: "\<forall>a c. QStatus ex_doc \<noteq> QAuthFailure" by simp
  have req: "form_appliances ex_req \<noteq> []" "form_providers ex_req \<noteq> []"
    "cookies ex_req cookie_name \<noteq> None"
    "length (form_credentials ex_req) = length (form_appliances ex_req)"
    by (simp_all add: ex_req_def)
  show ?thesis
    using dev D req status_retry_once [OF dev D req, of ex_lib] by blast
qed

theorem status_never_auth_witness:
  "status ex_lib ex_req (ex_world (\<lambda>i a c. QStatus ex_doc)) =
     Some (Inr ex_response,
           (ex_world (\<lambda>i a c. QStatus ex_doc))\<lparr>queries := [(''dp1'', ''MemoryStatus''), (''dp2'', ''MemoryStatus'')]\<rparr>) \<and>
   Inr ex_response \<noteq> (Inl AuthenticationFailure :: error + response)"
  using ex_status_ok status_never_auth [OF ex_status_ok] by simp

theorem status_attempt_queries_witness:
  "status_attempt ex_lib ex_req (ex_world (\<lambda>i a c. QStatus ex_doc)) =
     (Inr ex_response,
      (ex_world (\<lambda>i a c. QStatus ex_doc))\<lparr>queries := [(''dp1'', ''MemoryStatus''), (''dp2'', ''MemoryStatus'')]\<rparr>) \<and>
   length (form_credentials ex_req) = length (form_appliances ex_req) \<and>
   [(''dp1'', ''MemoryStatus''), (''dp2'', ''MemoryStatus'')] =
     concat (map (\<lambda>p. map (\<lambda>h. (h, provider_category p)) (form_appliances ex_req)) (form_providers ex_req))"
  using ex_attempt_ok status_attempt_queries [OF ex_attempt_ok]
  by (simp add: ex_req_def ex_world_def)

section \<open>Witnesses of the table and start-up properties\<close>

lemma ex_module_dir [simp]: "py_dirname ''/pkg/status.py'' = ''/pkg''"
  by (simp add: py_dirname_def)

lemma ex_config_path: "config_path ''/mast'' = ''/mast/etc/default/status.conf''"
  by (simp add: config_path_def path_join2_def)

lemma ex_plugin_hyps:
  "\<not> path_exists ex_fs (config_path ''/mast'')"
  "config_path ''/mast'' \<in> writable ex_fs"
  "path_join (py_dirname ''/pkg/status.py'') [''data'', ''plugin.conf''] \<noteq> config_path ''/mast''"
  "get_data_file ''/pkg/status.py'' ex_fs ''plugin.conf'' = Inr ''[status]''"
  by (simp_all add: ex_config_path path_exists_def ex_fs_def get_data_file_def path_join2_def
      read_file_def)

theorem WebPlugin_init_creates_config_witness:
  "\<not> path_exists ex_fs (config_path ''/mast'') \<and>
   config_path ''/mast'' \<in> writable ex_fs \<and>
   path_join (py_dirname ''/pkg/status.py'') [''data'', ''plugin.conf''] \<noteq> config_path ''/mast'' \<and>
   get_data_file ''/pkg/status.py'' ex_fs ''plugin.conf'' = Inr ''[status]'' \<and>
   WebPlugin_init ''/mast'' ''/pkg/status.py'' ex_fs = (Inr \<lparr>route = status\<rparr>, ex_fs_started)"
  using ex_plugin_hyps WebPlugin_init_creates_config [OF ex_plugin_hyps]
  by (simp add: ex_fs_started_def ex_config_path)

theorem WebPlugin_init_keeps_config_witness:
  "path_exists ex_fs_started (config_path ''/mast'') \<and>
   WebPlugin_init ''/mast'' ''/pkg/status.py'' ex_fs_started = (Inr \<lparr>route = status\<rparr>, ex_fs_started)"
proof -
  have h: "path_exists ex_fs_started (config_path ''/mast'')"
    by (simp add: ex_config_path path_exists_def ex_fs_started_def)
  from h WebPlugin_init_keeps_config [OF h] show ?thesis by simp
qed

lemma ex_plugin_hyps_nodata:
  "\<not> path_exists (ex_fs\<lparr>files := Map.empty\<rparr>) (config_path ''/mast'')"
  "config_path ''/mast'' \<in> writable (ex_fs\<lparr>files := Map.empty\<rparr>)"
  "path_join (py_dirname ''/pkg/status.py'') [''data'', ''plugin.conf''] \<noteq> config_path ''/mast''"
  "files (ex_fs\<lparr>files := Map.empty\<rparr>) (path_join (py_dirname ''/pkg/status.py'') [''data'', ''plugin.conf'']) = None"
  by (simp_all add: ex_config_path path_exists_def ex_fs_def path_join2_def)

theorem WebPlugin_init_missing_data_witness:
  "\<not> path_exists (ex_fs\<lparr>files := Map.empty\<rparr>) (config_path ''/mast'') \<and>
   config_path ''/mast'' \<in> writable (ex_fs\<lparr>files := Map.empty\<rparr>) \<and>
   path_join (py_dirname ''/pkg/status.py'') [''data'', ''plugin.conf''] \<noteq> config_path ''/mast'' \<and>
   files (ex_fs\<lparr>files := Map.empty\<rparr>) (path_join (py_dirname ''/pkg/status.py'') [''data'', ''plugin.conf'']) = None \<and>
   WebPlugin_init ''/mast'' ''/pkg/status.py'' (ex_fs\<lparr>files := Map.empty\<rparr>) =
     (Inl (IOError ''/pkg/data/plugin.conf''),
      ex_fs\<lparr>files := [''/mast/etc/default/status.conf'' \<mapsto> []]\<rparr>)"
  using ex_plugin_hyps_nodata WebPlugin_init_missing_data [OF ex_plugin_hyps_nodata]
  by (simp add: ex_config_path path_join2_def)

theorem WebPlugin_init_empty_config_sticks_witness:
  "\<not> path_exists (ex_fs\<lparr>files := Map.empty\<rparr>) (config_path ''/mast'') \<and>
   config_path ''/mast'' \<in> writable (ex_fs\<lparr>files := Map.empty\<rparr>) \<and>
   path_join (py_dirname ''/pkg/status.py'') [''data'', ''plugin.conf''] \<noteq> config_path ''/mast'' \<and>
   files (ex_fs\<lparr>files := Map.empty\<rparr>) (path_join (py_dirname ''/pkg/status.py'') [''data'', ''plugin.conf'']) = None \<and>
   files ((snd (WebPlugin_init ''/mast'' ''/pkg/status.py'' (ex_fs\<lparr>files := Map.empty\<rparr>)))
            \<lparr>files := (files (snd (WebPlugin_init ''/mast'' ''/pkg/status.py'' (ex_fs\<lparr>files := Map.empty\<rparr>))))
                (path_join (py_dirname ''/pkg/status.py'') [''data'', ''plugin.conf''] \<mapsto> ''[status]'')\<rparr>)
     (config_path ''/mast'') = Some []"
  using ex_plugin_hyps_nodata
    WebPlugin_init_empty_config_sticks [OF ex_plugin_hyps_nodata refl, of "''[status]''"]
  by blast

theorem status_world_witness:
  "status ex_lib ex_req (ex_world (\<lambda>i a c. QStatus ex_doc)) =
     Some (Inr ex_response,
           (ex_world (\<lambda>i a c. QStatus ex_doc))\<lparr>queries := [(''dp1'', ''MemoryStatus''), (''dp2'', ''MemoryStatus'')]\<rparr>) \<and>
   (\<exists>n. clock ((ex_world (\<lambda>i a c. QStatus ex_doc))\<lparr>queries := [(''dp1'', ''MemoryStatus''), (''dp2'', ''MemoryStatus'')]\<rparr>) =
          clock (ex_world (\<lambda>i a c. QStatus ex_doc)) + 2 * n)"
  using ex_status_ok Retry.status_world [OF ex_status_ok] by blast

section \<open>Packaging and start-up\<close>

lemma ex_config_outside: "take (Suc (length ex_target)) ''/mast/etc/default/status.conf'' \<noteq> ex_target @ ''/''"
  by (simp add: ex_target_def)

lemma ex_installed_hyps:
  "\<not> path_exists ex_installed (config_path ''/mast'')"
  "config_path ''/mast'' \<in> writable ex_installed"
  "files ex_fs0 (ex_target @ ''/data/plugin.conf'') = None"
  "config_path ''/mast'' \<noteq> ex_target @ ''/data/plugin.conf''"
  "ex_target \<noteq> []" "last ex_target \<noteq> CHR ''/''"
proof -
  have "files ex_installed ''/mast/etc/default/status.conf'' = None"
    unfolding ex_installed_def using ex_config_outside by (simp add: install_package_outside ex_fs0_def)
  then show "\<not> path_exists ex_installed (config_path ''/mast'')"
    unfolding ex_config_path
    by (simp add: path_exists_def domIff ex_installed_def install_package_def ex_fs0_def ex_target_def)
qed (simp_all add: ex_config_path ex_installed_def install_package_def ex_fs0_def ex_target_def)

theorem installed_plugin_start_fails_witness:
  "ex_src ''data/plugin.conf'' = Some ''[status]'' \<and>
   files ex_fs0 (ex_target @ ''/data/plugin.conf'') = None \<and>
   \<not> path_exists ex_installed (config_path ''/mast'') \<and>
   WebPlugin_init ''/mast'' (ex_target @ ''/status.py'') ex_installed =
     (Inl (IOError (ex_target @ ''/data/plugin.conf'')),
      ex_installed\<lparr>files := (files ex_installed)(config_path ''/mast'' \<mapsto> [])\<rparr>)"
  using ex_installed_hyps
    installed_plugin_start_fails [OF ex_installed_hyps(5,6) ex_installed_def ex_installed_hyps(3,1,2,4)]
  by (simp add: ex_src_def)

theorem setup_installs_witness:
  "build_selects (setup_call ''readme'') ''mast.datapower.status'' ''docroot/index.html'' \<and>
   build_selects (setup_call ''readme'') ''mast.datapower.status'' ''status.py'' \<and>
   \<not> build_selects (setup_call ''readme'') ''mast.datapower.status'' ''data/plugin.conf''"
proof -
  have "''docroot/index.html'' = ''docroot/'' @ ''index.html''" "''status.py'' = ''status'' @ ''.py''"
    by simp_all
  then show ?thesis
    using setup_installs [of "''readme''" "''docroot/index.html''"]
      setup_installs [of "''readme''" "''status.py''"]
      setup_installs [of "''readme''" "''data/plugin.conf''"]
    by (auto simp: ishidden_def)
qed

section \<open>The recursion limit\<close>

theorem status_rec_all_auth_witness:
  "(\<forall>i a c. device (ex_world (\<lambda>i a c. QAuthFailure)) i a c = QAuthFailure) \<and>
   form_appliances ex_req \<noteq> [] \<and> form_providers ex_req \<noteq> [] \<and>
   cookies ex_req cookie_name \<noteq> None \<and>
   length (form_credentials ex_req) = length (form_appliances ex_req) \<and>
   status_rec 3 ex_lib ex_req (ex_world (\<lambda>i a c. QAuthFailure)) =
     (Inl RecursionLimit,
      (ex_world (\<lambda>i a c. QAuthFailure))\<lparr>clock := 106,
         queries := replicate 3 (''dp1'', ''MemoryStatus'')\<rparr>)"
  using status_rec_all_auth [of "ex_world (\<lambda>i a c. QAuthFailure)" ex_req 3 ex_lib]
  by (simp add: ex_req_def ex_world_def)

section \<open>The life of an installation\<close>

lemma ex_environ_home: "ex_environ ''MAST_HOME'' = Some ''/mast''"
  by (simp add: ex_environ_def)

lemma ex_restarted_run: "lifecycle ex_environ ''/pkg/status.py'' ex_fs_started ex_restarted"
  unfolding ex_restarted_def
proof (rule lifecycle.start, rule lifecycle.outside_write)
  show "lifecycle ex_environ ''/pkg/status.py'' ex_fs_started ex_fs_started"
    by (rule lifecycle.installed)
  show "Some ''/pkg/data/plugin.conf'' \<noteq> map_option config_path (ex_environ ''MAST_HOME'')"
    by (simp add: ex_environ_home ex_config_path)
qed

theorem lifecycle_config_stable_witness:
  "lifecycle ex_environ ''/pkg/status.py'' ex_fs_started ex_restarted \<and>
   ex_environ ''MAST_HOME'' = Some ''/mast'' \<and>
   files ex_fs_started (config_path ''/mast'') = Some ''[status]'' \<and>
   files ex_restarted (config_path ''/mast'') = Some ''[status]''"
proof -
  have cfg: "files ex_fs_started (config_path ''/mast'') = Some ''[status]''"
    by (simp add: ex_config_path ex_fs_started_def)
  from ex_restarted_run ex_environ_home cfg
    lifecycle_config_stable [OF ex_restarted_run ex_environ_home cfg]
  show ?thesis by blast
qed

lemma ex_manual_fix_run:
  "lifecycle ex_environ (ex_target @ ''/status.py'') ex_after_first_start ex_after_manual_fix"
  unfolding ex_after_manual_fix_def
proof (rule lifecycle.start, rule lifecycle.outside_write)
  show "lifecycle ex_environ (ex_target @ ''/status.py'') ex_after_first_start ex_after_first_start"
    by (rule lifecycle.installed)
  show "Some (ex_target @ ''/data/plugin.conf'') \<noteq> map_option config_path (ex_environ ''MAST_HOME'')"
    by (simp add: ex_environ_home ex_config_path ex_target_def)
qed

theorem installed_config_stays_empty_witness:
  "ex_src ''data/plugin.conf'' = Some ''[status]'' \<and>
   \<not> path_exists ex_installed (config_path ''/mast'') \<and>
   lifecycle ex_environ (ex_target @ ''/status.py'') ex_after_first_start ex_after_manual_fix \<and>
   files ex_after_manual_fix (config_path ''/mast'') = Some []"
  using ex_installed_hyps ex_manual_fix_run
    installed_config_stays_empty [OF ex_installed_hyps(5,6) ex_installed_def
      ex_installed_hyps(3,1,2,4) ex_environ_home ex_manual_fix_run [unfolded ex_after_first_start_def]]
  by (simp add: ex_src_def)

section \<open>Credential decoding and the retry\<close>

lemma empty_cookie_attempt:
  assumes ck: "cookies req cookie_name = Some []"
    and apps: "form_appliances req \<noteq> []" and provs: "form_providers req \<noteq> []"
    and creds: "length (form_credentials req) = length (form_appliances req)"
    and rej: "\<forall>i a c. credential a = [] \<longrightarrow> device w i a c = QAuthFailure"
  shows "\<exists>q. status_attempt (xor_lib sx dk ts) req w =
               (Inl AuthenticationFailure, w\<lparr>queries := queries w @ [q]\<rparr>)"
proof -
  let ?env = "Environment (form_appliances req) (map (\<lambda>c. []) (form_credentials req)) False"
  have "length ?env \<noteq> 0" using apps creds by simp
  then obtain a as where env: "?env = a # as" by (cases ?env) auto
  have "\<forall>b \<in> set ?env. credential b = []"
    by (auto simp: Environment_def set_zip)
  with env have empty: "credential a = []" by simp
  obtain p ps where ps: "form_providers req = p # ps" using provs by (cases "form_providers req") auto
  show ?thesis
    using rej empty apps
    by (simp add: status_attempt_cases decode_credentials_cookie [of "cookies req", OF ck] env ps
        get_status_def del: provider_category_takeWhile) blast
qed

text \<open>
  C23. Credential decoding and the retry together: with an empty credential cookie every
  credential decodes to the empty string, and if the appliances reject an empty password
  with \<^verbatim>\<open>AuthenticationFailure\<close>, the handler restarts forever and never answers the
  request.
\<close>

theorem empty_cookie_never_returns:
  assumes ck: "cookies req cookie_name = Some []"
    and apps: "form_appliances req \<noteq> []" and provs: "form_providers req \<noteq> []"
    and creds: "length (form_credentials req) = length (form_appliances req)"
    and rej: "\<forall>i a c. credential a = [] \<longrightarrow> device w i a c = QAuthFailure"
  shows "status (xor_lib sx dk ts) req w = None"
proof (rule ccontr)
  assume "status (xor_lib sx dk ts) req w \<noteq> None"
  then obtain x n where run: "status_fuel n (xor_lib sx dk ts) req w = Some x"
    by (blast dest: status_fuel_complete)
  have "status_fuel n (xor_lib sx dk ts) req w = None"
    by (rule status_fuel_auth_invariant
          [where P = "\<lambda>w. \<forall>i a c. credential a = [] \<longrightarrow> device w i a c = QAuthFailure"])
       (use empty_cookie_attempt [OF ck apps provs creds] rej in auto)
  with run show False by simp
qed

theorem empty_cookie_never_returns_witness:
  "status ex_xor_lib (ex_req\<lparr>cookies := [cookie_name \<mapsto> []]\<rparr>)
     (ex_world (\<lambda>i a c. if credential a = [] then QAuthFailure else QStatus ex_doc)) = None"
  using empty_cookie_never_returns
      [where req = "ex_req\<lparr>cookies := [cookie_name \<mapsto> []]\<rparr>"
         and w = "ex_world (\<lambda>i a c. if credential a = [] then QAuthFailure else QStatus ex_doc)"
         and sx = "''/status''" and dk = "''_''" and ts = "\<lambda>n. ''T''"]
  by (simp add: ex_xor_lib_def ex_req_def ex_world_def)

section \<open>Logging\<close>

lemma ex_failing_attempts:
  "status_attempt_logged ex_lib ex_req (ex_world ex_failing) =
     (Inl AuthenticationFailure, (ex_world ex_failing)\<lparr>queries := [(''dp1'', ''MemoryStatus'')]\<rparr>,
      [DebugAppliances [''dp1'', ''dp2''], DebugProviders [''MemoryStatus.Usage''],
       DebugChecking ''MemoryStatus'' ''dp1''])"
  "status_attempt_logged ex_lib ex_req (sleep 2 ((ex_world ex_failing)\<lparr>queries := [(''dp1'', ''MemoryStatus'')]\<rparr>)) =
     (Inl (DeviceError ''boom''),
      (sleep 2 ((ex_world ex_failing)\<lparr>queries := [(''dp1'', ''MemoryStatus''), (''dp1'', ''MemoryStatus'')]\<rparr>)),
      [DebugAppliances [''dp1'', ''dp2''], DebugProviders [''MemoryStatus.Usage''],
       DebugChecking ''MemoryStatus'' ''dp1'', ExceptionUnhandled (DeviceError ''boom'')])"
  by (simp_all add: status_attempt_logged_def ex_lib_def ex_req_def ex_world_def ex_failing_def
      Environment_def get_status_def sleep_def cookie_name_def Let_def)

lemma ex_failing_run:
  "status_logged ex_lib ex_req (ex_world ex_failing) =
     Some (Inl (DeviceError ''boom''),
      (sleep 2 ((ex_world ex_failing)\<lparr>queries := [(''dp1'', ''MemoryStatus''), (''dp1'', ''MemoryStatus'')]\<rparr>)),
      ex_failing_log)"
  by (simp add: status_logged_unfold [of ex_lib ex_req "ex_world ex_failing"]
      status_logged_unfold [of ex_lib ex_req "sleep 2 ((ex_world ex_failing)\<lparr>queries := [(''dp1'', ''MemoryStatus'')]\<rparr>)"]
      ex_failing_attempts ex_failing_log_def)

theorem status_logged_queries_witness:
  "status_logged ex_lib ex_req (ex_world ex_failing) =
     Some (Inl (DeviceError ''boom''),
      (sleep 2 ((ex_world ex_failing)\<lparr>queries := [(''dp1'', ''MemoryStatus''), (''dp1'', ''MemoryStatus'')]\<rparr>)),
      ex_failing_log) \<and>
   concat (map checked_entry ex_failing_log) = [(''dp1'', ''MemoryStatus''), (''dp1'', ''MemoryStatus'')]"
  using ex_failing_run status_logged_queries [OF ex_failing_run] by (simp add: ex_world_def)

theorem status_logged_exceptions_witness:
  "status_logged ex_lib ex_req (ex_world ex_failing) =
     Some (Inl (DeviceError ''boom''),
      (sleep 2 ((ex_world ex_failing)\<lparr>queries := [(''dp1'', ''MemoryStatus''), (''dp1'', ''MemoryStatus'')]\<rparr>)),
      ex_failing_log) \<and>
   length (filter attempt_entry ex_failing_log) = 2 \<and>
   concat (map exception_entry ex_failing_log) = [DeviceError ''boom'', DeviceError ''boom'']"
proof -
  have "length (filter attempt_entry ex_failing_log) = 2" by (simp add: ex_failing_log_def)
  with ex_failing_run status_logged_exceptions [OF ex_failing_run] show ?thesis
    by (simp add: numeral_2_eq_2)
qed

section \<open>The HTTP boundary\<close>

lemma ex_route_no_cookie:
  "route_status wz ex_lib (ex_req\<lparr>cookies := Map.empty\<rparr>) (ex_world (\<lambda>i a c. QStatus ex_doc)) =
     Some (HttpError (if wz then 400 else 500), ex_world (\<lambda>i a c. QStatus ex_doc))"
  unfolding route_status_def
  by (subst status_unfold) (simp add: status_attempt_cases ex_req_def http_of_def)

theorem route_status_codes_witness:
  "route_status False ex_lib (ex_req\<lparr>cookies := Map.empty\<rparr>) (ex_world (\<lambda>i a c. QStatus ex_doc)) =
     Some (HttpError 500, ex_world (\<lambda>i a c. QStatus ex_doc)) \<and>
   route_status True ex_lib (ex_req\<lparr>cookies := Map.empty\<rparr>) (ex_world (\<lambda>i a c. QStatus ex_doc)) =
     Some (HttpError 400, ex_world (\<lambda>i a c. QStatus ex_doc)) \<and>
   form_credentials (ex_req\<lparr>cookies := Map.empty\<rparr>) \<noteq> [] \<and>
   form_appliances (ex_req\<lparr>cookies := Map.empty\<rparr>) \<noteq> []"
  using ex_route_no_cookie [of False] ex_route_no_cookie [of True]
    route_status_codes [OF ex_route_no_cookie [of False]]
    route_status_codes [OF ex_route_no_cookie [of True]]
  by (simp add: ex_req_def)

section \<open>The timestamp of a restarted request\<close>

text \<open>
  C27. The \<^verbatim>\<open>"time"\<close> of an answer is taken by the last attempt, not at the
  invocation: a call that answers after \<open>n\<close> restarts reports the timestamp of the
  clock \<open>2 n\<close> seconds after it was invoked (given one credential per appliance).
\<close>

theorem status_time_last_attempt:
  assumes ok: "status L req w = Some (Inr resp, w')"
    and creds: "length (form_credentials req) = length (form_appliances req)"
  shows "\<exists>n. status_fuel (Suc n) L req w = Some (Inr resp, w') \<and> clock w' = clock w + 2 * n \<and>
             resp ''time'' = Some (JStr (Timestamp_short L (clock w + 2 * n)))"
proof -
  obtain w0 env where
    run: "collect_providers L (form_providers req) env
            (initial_response (form_appliances req) (Timestamp_short L (clock w0))) w0 = (Inr resp, w')"
    and keys: "''appliances'' \<notin> set (form_providers req)" "''time'' \<notin> set (form_providers req)"
    using status_answer [OF ok creds] by blast
  have time: "resp ''time'' = Some (JStr (Timestamp_short L (clock w')))"
    using collect_providers_shape [OF run] collect_providers_frame [OF run] keys
    by (simp add: initial_response_def)
  from status_fuel_complete [OF ok] obtain m where "status_fuel m L req w = Some (Inr resp, w')" ..
  from status_fuel_world [OF this] obtain n where
    "status_fuel (Suc n) L req w = Some (Inr resp, w')" "clock w' = clock w + 2 * n" by blast
  with time show ?thesis by auto
qed

lemma ex_clock_run:
  "status_fuel 2 ex_clock_lib ex_req (ex_world ex_flaky) =
     Some (Inr ((initial_response [''dp1'', ''dp2''] ''later'')
                 (''MemoryStatus.Usage'' \<mapsto> JArr [JStr ''42'', JStr ''42''])),
           (sleep 2 ((ex_world ex_flaky)\<lparr>queries := [(''dp1'', ''MemoryStatus'')]\<rparr>))
             \<lparr>queries := [(''dp1'', ''MemoryStatus''), (''dp1'', ''MemoryStatus''), (''dp2'', ''MemoryStatus'')]\<rparr>)"
  by (simp add: numeral_2_eq_2 status_attempt_cases ex_clock_lib_def ex_lib_def ex_req_def
      ex_world_def ex_flaky_def ex_doc_def Environment_def get_status_def PROVIDER_MAP_def
      PROVIDER_TABLE_def metric_json_def cookie_name_def sleep_def Let_def is_auth_failure_iff)

theorem status_time_last_attempt_witness:
  "status ex_clock_lib ex_req (ex_world ex_flaky) =
     Some (Inr ((initial_response [''dp1'', ''dp2''] ''later'')
                 (''MemoryStatus.Usage'' \<mapsto> JArr [JStr ''42'', JStr ''42''])),
           (sleep 2 ((ex_world ex_flaky)\<lparr>queries := [(''dp1'', ''MemoryStatus'')]\<rparr>))
             \<lparr>queries := [(''dp1'', ''MemoryStatus''), (''dp1'', ''MemoryStatus''), (''dp2'', ''MemoryStatus'')]\<rparr>) \<and>
   length (form_credentials ex_req) = length (form_appliances ex_req) \<and>
   Timestamp_short ex_clock_lib (clock (ex_world ex_flaky)) = ''start'' \<and>
   Timestamp_short ex_clock_lib (clock (ex_world ex_flaky) + 2) = ''later''"
proof -
  note st = status_fuel_sound [OF ex_clock_run]
  from st status_time_last_attempt [OF st] show ?thesis
    by (simp add: ex_req_def ex_clock_lib_def ex_world_def)
qed

section \<open>The credentials each appliance is queried with\<close>


end
